theory Spec2Isabelle
  imports Main
begin

section \<open>JavaScript values and payloads\<close>

text \<open>
  The survey payload is \<^verbatim>\<open>data: any\<close>: an object whose own enumerable properties hold
  answers. Only primitive answers are modelled; numbers are integers (no NaN, no
  fractions). A payload is the list of its own properties in the order
  \<^verbatim>\<open>Object.values\<close> enumerates them; \<^verbatim>\<open>data.k\<close> of a missing property is
  \<^verbatim>\<open>undefined\<close>.
\<close>

datatype jsval = JUndefined | JNull | JBool bool | JNum int | JStr string

fun truthy :: "jsval \<Rightarrow> bool" where
  "truthy JUndefined = False"
| "truthy JNull = False"
| "truthy (JBool b) = b"
| "truthy (JNum n) = (n \<noteq> 0)"
| "truthy (JStr s) = (s \<noteq> [])"

definition js_or :: "jsval \<Rightarrow> jsval \<Rightarrow> jsval" where
  "js_or a b = (if truthy a then a else b)"

type_synonym payload = "(string \<times> jsval) list"

definition get_prop :: "payload \<Rightarrow> string \<Rightarrow> jsval" where
  "get_prop d k = (case map_of d k of None \<Rightarrow> JUndefined | Some v \<Rightarrow> v)"

definition Object_values :: "payload \<Rightarrow> jsval list" where
  "Object_values d = map snd d"

section \<open>Errors\<close>

text \<open>
  Every \<^verbatim>\<open>throw new Error(...)\<close> of the server code is a constructor named after its
  message; \<open>Rejected\<close> is a rejection coming from a collaborator (the database driver,
  the spreadsheet API).
\<close>

datatype error =
    NoConnectionString
  | EmailRequired
  | SubmissionExists jsval
  | Rejected string

section \<open>The environment and the server's state\<close>

text \<open>
  What the collaborators answer during one call is the environment: the value of
  \<^verbatim>\<open>process.env.MONGO_URI\<close> read at module load, how \<^verbatim>\<open>mongoose.connect\<close> settles for a
  connection string (a rejection reason or a connection handle), whether the
  driver's \<^verbatim>\<open>countDocuments\<close> and \<^verbatim>\<open>save\<close> and the spreadsheet API reject, the clock,
  and how JavaScript prints a number (\<^verbatim>\<open>Number.prototype.toString\<close>).
\<close>

record env =
  MONGO_URI :: "string option"
  connect :: "string \<Rightarrow> string + nat"
  countDocuments_rejects :: "string option"
  save_rejects :: "string option"
  append_rejects :: "string option"
  Date_now :: nat
  Number_toString :: "int \<Rightarrow> string"

text \<open>
  The string form of a primitive value, JavaScript's \<^verbatim>\<open>String(v)\<close>. The schema declares
  \<^verbatim>\<open>email\<close> as \<^verbatim>\<open>String\<close> (line 17), so the driver casts to it both the key of a record
  it stores and the key of a filter it counts with: a string stays as it is, a
  number or a boolean becomes its string form. The keys cast in this file are truthy.
\<close>

fun js_String :: "env \<Rightarrow> jsval \<Rightarrow> string" where
  "js_String e (JStr s) = s"
| "js_String e (JNum n) = Number_toString e n"
| "js_String e (JBool b) = (if b then ''true'' else ''false'')"
| "js_String e JNull = ''null''"
| "js_String e JUndefined = ''undefined''"

text \<open>\<^verbatim>\<open>ISurveyResponse\<close>, as stored: \<^verbatim>\<open>email\<close> is a string.\<close>

record survey_response =
  surveyId :: "string option"
  email :: string
  data :: payload
  createdAt :: nat

record append_request =
  req_spreadsheetId :: string
  req_range :: string
  req_apiKey :: string
  req_values :: "jsval list list"
  req_accessToken :: "string option"

text \<open>
  The state: \<^verbatim>\<open>global.mongoose = { conn, promise }\<close> (a promise is represented by the
  way it settles, calls being sequential), the log of \<^verbatim>\<open>mongoose.connect\<close> calls,
  the collection of survey responses, the requests sent to the spreadsheet API and
  the rows it holds per spreadsheet and range.
\<close>

record server =
  cached_conn :: "nat option"
  cached_promise :: "(string + nat) option"
  connect_calls :: "string list"
  documents :: "survey_response list"
  sheet_requests :: "append_request list"
  sheet_rows :: "string \<times> string \<Rightarrow> jsval list list"

section \<open>mongodb.ts\<close>

text \<open>
  Truthiness of a \<^verbatim>\<open>string | undefined\<close>: \<^verbatim>\<open>undefined\<close> and the empty string are falsy.
  \<open>connectionString\<close> is \<^verbatim>\<open>uri || MONGODB_URI\<close>.
\<close>

definition str_truthy :: "string option \<Rightarrow> bool" where
  "str_truthy x = (case x of None \<Rightarrow> False | Some u \<Rightarrow> u \<noteq> [])"

definition connectionString :: "env \<Rightarrow> string option \<Rightarrow> string option" where
  "connectionString e uri = (if str_truthy uri then uri else MONGO_URI e)"

text \<open>
  Lines 27 to 35: the promise awaited is the cached one, or a new one made by
  \<^verbatim>\<open>mongoose.connect\<close>, which is then cached (and the call logged).
\<close>

definition ensure_promise :: "env \<Rightarrow> string \<Rightarrow> server \<Rightarrow> (string + nat) \<times> server" where
  "ensure_promise e cs s =
     (case cached_promise s of
        None \<Rightarrow> (connect e cs,
                 s\<lparr>cached_promise := Some (connect e cs),
                   connect_calls := connect_calls s @ [cs]\<rparr>)
      | Some p \<Rightarrow> (p, s))"

definition dbConnect :: "env \<Rightarrow> string option \<Rightarrow> server \<Rightarrow> (error + nat) \<times> server" where
  "dbConnect e uri s =
     (case connectionString e uri of
        None \<Rightarrow> (Inl NoConnectionString, s)
      | Some cs \<Rightarrow>
          if cs = [] then (Inl NoConnectionString, s)
          else (case cached_conn s of
                  Some c \<Rightarrow> (Inr c, s)
                | None \<Rightarrow>
                    (case ensure_promise e cs s of
                       (Inr c, s1) \<Rightarrow> (Inr c, s1\<lparr>cached_conn := Some c\<rparr>)
                     | (Inl r, s1) \<Rightarrow> (Inl (Rejected r), s1\<lparr>cached_promise := None\<rparr>))))"

section \<open>index.ts\<close>

text \<open>
  \<^verbatim>\<open>countDocuments({ email })\<close> for a key that is a string, as the signature of
  \<open>checkDuplicateEmail\<close> has it (\<^verbatim>\<open>email: string\<close>).
\<close>

definition countDocuments :: "env \<Rightarrow> string \<Rightarrow> server \<Rightarrow> error + nat" where
  "countDocuments e v s =
     (case countDocuments_rejects e of
        Some r \<Rightarrow> Inl (Rejected r)
      | None \<Rightarrow> Inr (length (filter (\<lambda>r. email r = v) (documents s))))"

definition checkDuplicateEmail ::
  "env \<Rightarrow> string \<Rightarrow> string option \<Rightarrow> server \<Rightarrow> (error + bool) \<times> server" where
  "checkDuplicateEmail e v mongoUri s =
     (case dbConnect e mongoUri s of
        (Inl err, s1) \<Rightarrow> (Inl err, s1)
      | (Inr c, s1) \<Rightarrow>
          (case countDocuments e v s1 of
             Inl err \<Rightarrow> (Inl err, s1)
           | Inr count \<Rightarrow> (Inr (count > 0), s1)))"

definition model_save :: "env \<Rightarrow> survey_response \<Rightarrow> server \<Rightarrow> (error + survey_response) \<times> server" where
  "model_save e r s =
     (case save_rejects e of
        Some m \<Rightarrow> (Inl (Rejected m), s)
      | None \<Rightarrow> (Inr r, s\<lparr>documents := documents s @ [r]\<rparr>))"

text \<open>
  Lines 51 to 57. The key passed at line 53 is any truthy value; the count is made
  with its cast to the schema's string.
\<close>

definition duplicate_guard ::
  "env \<Rightarrow> jsval \<Rightarrow> bool \<Rightarrow> string option \<Rightarrow> server \<Rightarrow> (error + unit) \<times> server" where
  "duplicate_guard e em checkDup mongoUri s =
     (if checkDup then
        (if \<not> truthy em then (Inl EmailRequired, s)
         else (case checkDuplicateEmail e (js_String e em) mongoUri s of
                 (Inl err, s1) \<Rightarrow> (Inl err, s1)
               | (Inr isDuplicate, s1) \<Rightarrow>
                   if isDuplicate then (Inl (SubmissionExists em), s1) else (Inr (), s1)))
      else (Inr (), s))"

text \<open>Line 49: \<^verbatim>\<open>const email = data.email || data.Email\<close>.\<close>

definition uniqueness_key :: "payload \<Rightarrow> jsval" where
  "uniqueness_key d = js_or (get_prop d ''email'') (get_prop d ''Email'')"

definition saveToMongoDB ::
  "env \<Rightarrow> payload \<Rightarrow> bool \<Rightarrow> string option \<Rightarrow> server \<Rightarrow> (error + survey_response) \<times> server" where
  "saveToMongoDB e d checkDup mongoUri s =
     (case dbConnect e mongoUri s of
        (Inl err, s1) \<Rightarrow> (Inl err, s1)
      | (Inr c, s1) \<Rightarrow>
          (let em = uniqueness_key d in
           case duplicate_guard e em checkDup mongoUri s1 of
             (Inl err, s2) \<Rightarrow> (Inl err, s2)
           | (Inr u, s2) \<Rightarrow>
               model_save e
                 \<lparr>surveyId = None, email = js_String e (js_or em (JStr ''anonymous'')),
                  data = d, createdAt = Date_now e\<rparr> s2))"

text \<open>
  Modelled from the spec: \<^verbatim>\<open>appendToGoogleSheet\<close> of \<^verbatim>\<open>./googleSheets\<close>, which is not
  among the sources. The spreadsheet contract is
  \<^verbatim>\<open>append(spreadsheetId, range, apiKey, values, accessToken?) -> result\<close>: the rows of
  \<open>values\<close> are appended to the configured range, or the call fails. The result is
  the number of rows written.
\<close>

definition appendToGoogleSheet ::
  "env \<Rightarrow> string \<Rightarrow> string \<Rightarrow> string \<Rightarrow> jsval list list \<Rightarrow> string option \<Rightarrow> server
     \<Rightarrow> (error + nat) \<times> server" where
  "appendToGoogleSheet e sid rng key vals token s =
     (let s1 = s\<lparr>sheet_requests := sheet_requests s @
                  [\<lparr>req_spreadsheetId = sid, req_range = rng, req_apiKey = key,
                    req_values = vals, req_accessToken = token\<rparr>]\<rparr>
      in case append_rejects e of
           Some m \<Rightarrow> (Inl (Rejected m), s1)
         | None \<Rightarrow>
             (Inr (length vals),
              s1\<lparr>sheet_rows := (sheet_rows s1)((sid, rng) := sheet_rows s1 (sid, rng) @ vals)\<rparr>))"

record googleSheet_options =
  spreadsheetId :: string
  sheet_range :: string
  apiKey :: string
  accessToken :: "string option"

record gcp_config =
  credentials :: payload
  bucketName :: string

record options =
  mongo :: "bool option"
  mongoUri :: "string option"
  checkDuplicate :: "bool option"
  googleSheet :: "googleSheet_options option"
  gcp :: "gcp_config option"

text \<open>The object \<^verbatim>\<open>results\<close>: a key is present when its field is not \<open>None\<close>.\<close>

record results =
  results_mongo :: "survey_response option"
  results_sheets :: "nat option"

definition save_step ::
  "env \<Rightarrow> payload \<Rightarrow> options \<Rightarrow> server \<Rightarrow> (error + results) \<times> server" where
  "save_step e d opts s =
     (if mongo opts = Some True then
        (case saveToMongoDB e d (checkDuplicate opts = Some True) (mongoUri opts) s of
           (Inl err, s1) \<Rightarrow> (Inl err, s1)
         | (Inr doc, s1) \<Rightarrow> (Inr \<lparr>results_mongo = Some doc, results_sheets = None\<rparr>, s1))
      else (Inr \<lparr>results_mongo = None, results_sheets = None\<rparr>, s))"

definition sheet_step ::
  "env \<Rightarrow> payload \<Rightarrow> options \<Rightarrow> results \<Rightarrow> server \<Rightarrow> (error + results) \<times> server" where
  "sheet_step e d opts res s =
     (case googleSheet opts of
        None \<Rightarrow> (Inr res, s)
      | Some g \<Rightarrow>
          (let vals = [Object_values d] in
           case appendToGoogleSheet e (spreadsheetId g) (sheet_range g) (apiKey g) vals
                  (accessToken g) s of
             (Inl err, s1) \<Rightarrow> (Inl err, s1)
           | (Inr r, s1) \<Rightarrow> (Inr (res\<lparr>results_sheets := Some r\<rparr>), s1)))"

definition handleSurveySubmission ::
  "env \<Rightarrow> payload \<Rightarrow> options \<Rightarrow> server \<Rightarrow> (error + results) \<times> server" where
  "handleSurveySubmission e d opts s =
     (case save_step e d opts s of
        (Inl err, s1) \<Rightarrow> (Inl err, s1)
      | (Inr res, s1) \<Rightarrow> sheet_step e d opts res s1)"

section \<open>gcpbucket.ts\<close>

text \<open>
  A \<^verbatim>\<open>Storage\<close> client keeps the credentials it was constructed with; a handle made by
  \<^verbatim>\<open>storage.bucket(n)\<close> belongs to that client. The module state is \<^verbatim>\<open>cachedStorage\<close> and
  \<^verbatim>\<open>cachedBucket\<close> (both \<^verbatim>\<open>null\<close> at load); \<open>storages_constructed\<close> counts the
  evaluations of \<^verbatim>\<open>new Storage(...)\<close>.
\<close>

record storage =
  storage_credentials :: payload

record bucket =
  name :: string
  bucket_storage :: storage

record bucket_module =
  cachedStorage :: "storage option"
  cachedBucket :: "bucket option"
  storages_constructed :: nat

definition bucket_module_init :: bucket_module where
  "bucket_module_init = \<lparr>cachedStorage = None, cachedBucket = None, storages_constructed = 0\<rparr>"

datatype storage_error = BucketNameNeeded

text \<open>
  Lines 15 to 20. Line 15 constructs a client and assigns it to \<^verbatim>\<open>cachedStorage\<close>. At
  line 19 \<^verbatim>\<open>cachedStorage.bucket(n)\<close> throws for an empty name, before \<^verbatim>\<open>cachedBucket\<close> is
  assigned, so the new client stays cached beside the old handle. For another name it
  makes a handle of the new client, whose \<^verbatim>\<open>name\<close> the library derives from \<open>n\<close>: the
  parameter \<open>handle_name\<close>.
\<close>

definition construct_bucket ::
  "(string \<Rightarrow> string) \<Rightarrow> gcp_config \<Rightarrow> bucket_module
     \<Rightarrow> (storage_error + bucket) \<times> bucket_module" where
  "construct_bucket handle_name config m =
     (let st = \<lparr>storage_credentials = credentials config\<rparr>;
          m1 = m\<lparr>cachedStorage := Some st,
                 storages_constructed := Suc (storages_constructed m)\<rparr>
      in if bucketName config = [] then (Inl BucketNameNeeded, m1)
         else (let b = \<lparr>name = handle_name (bucketName config), bucket_storage = st\<rparr>
               in (Inr b, m1\<lparr>cachedBucket := Some b\<rparr>)))"

text \<open>
  Line 11: \<^verbatim>\<open>cachedStorage && cachedBucket?.name === config.bucketName\<close>; the name of a
  \<^verbatim>\<open>null\<close> bucket is \<^verbatim>\<open>undefined\<close>, which equals no string.
\<close>

definition getBucket ::
  "(string \<Rightarrow> string) \<Rightarrow> gcp_config \<Rightarrow> bucket_module
     \<Rightarrow> (storage_error + bucket) \<times> bucket_module" where
  "getBucket handle_name config m =
     (case cachedStorage m of
        None \<Rightarrow> construct_bucket handle_name config m
      | Some st \<Rightarrow>
          (case cachedBucket m of
             None \<Rightarrow> construct_bucket handle_name config m
           | Some b \<Rightarrow>
               if name b = bucketName config then (Inr b, m)
               else construct_bucket handle_name config m))"

text \<open>
  A sequence of \<^verbatim>\<open>getBucket\<close> calls, returning in call order what each call returned or
  threw.
\<close>

fun getBuckets ::
  "(string \<Rightarrow> string) \<Rightarrow> gcp_config list \<Rightarrow> bucket_module
     \<Rightarrow> (storage_error + bucket) list \<times> bucket_module" where
  "getBuckets handle_name [] m = ([], m)"
| "getBuckets handle_name (config # rest) m =
     (case getBucket handle_name config m of
        (r, m1) \<Rightarrow> (case getBuckets handle_name rest m1 of (rs, m2) \<Rightarrow> (r # rs, m2)))"

text \<open>
  Counting over a sequence of requested bucket names: every empty name, and every
  other name that differs from the last name before it that was not empty (\<open>prev\<close>
  before the first).
\<close>

fun name_changes :: "string option \<Rightarrow> string list \<Rightarrow> nat" where
  "name_changes prev [] = 0"
| "name_changes prev (n # ns) =
     (if n = [] then 1 + name_changes prev ns
      else (if prev = Some n then 0 else 1) + name_changes (Some n) ns)"

text \<open>The bucket name the test of line 11 compares with: that of the cached handle, if any.\<close>

definition cached_name :: "bucket_module \<Rightarrow> string option" where
  "cached_name m =
     (case cachedStorage m of
        None \<Rightarrow> None
      | Some st \<Rightarrow> map_option name (cachedBucket m))"

text \<open>
  The requested name is empty or is one the library gives to the handle as it is.
\<close>

definition plain_name :: "(string \<Rightarrow> string) \<Rightarrow> gcp_config \<Rightarrow> bool" where
  "plain_name handle_name config =
     (bucketName config = [] \<or> handle_name (bucketName config) = bucketName config)"

section \<open>TEDxSurvey.tsx: the upload handler\<close>

text \<open>
  The \<^verbatim>\<open>options\<close> object of an upload event is a plain object \<^verbatim>\<open>{files, callback}\<close>. Its
  \<^verbatim>\<open>callback\<close> property holds the engine's function when the event is fired; a
  property holds whatever was last assigned to it, so after line 69 it holds a
  string. Calling a property that holds a string throws a \<^verbatim>\<open>TypeError\<close>.
\<close>

datatype callback_slot = EngineCallback | StringValue string

record upload_options =
  files :: "string list"
  callback :: callback_slot

text \<open>
  How the request of line 73 ends: \<^verbatim>\<open>fetch\<close> rejects, \<^verbatim>\<open>res.json()\<close> rejects, or the body
  parses (to a sequence of \<^verbatim>\<open>{fileId, content}\<close> pairs).
\<close>

datatype fetch_outcome = FetchRejects | JsonRejects | Parsed "(string \<times> string) list"

text \<open>
  What can be observed of one handled event: the POST, each invocation of the engine's
  callback with its status and payload, \<^verbatim>\<open>console.error\<close>, and a rejection nobody
  handles.
\<close>

datatype upload_event =
    Posted string "string list"
  | Invoked string "(string \<times> string) list option"
  | ConsoleError
  | UnhandledRejection

definition call_callback ::
  "upload_options \<Rightarrow> string \<Rightarrow> (string \<times> string) list option \<Rightarrow> upload_event list option" where
  "call_callback opts status arg =
     (case callback opts of
        EngineCallback \<Rightarrow> Some [Invoked status arg]
      | StringValue v \<Rightarrow> None)"

text \<open>Lines 84 to 87, the \<^verbatim>\<open>.catch\<close> handler; a throw inside it rejects the chain.\<close>

definition on_catch :: "upload_options \<Rightarrow> upload_event list" where
  "on_catch opts =
     ConsoleError #
     (case call_callback opts ''error'' None of
        Some t \<Rightarrow> t
      | None \<Rightarrow> [UnhandledRejection])"

text \<open>Lines 78 to 83, the second \<^verbatim>\<open>.then\<close> handler; a throw inside it goes to \<^verbatim>\<open>.catch\<close>.\<close>

definition on_data :: "upload_options \<Rightarrow> (string \<times> string) list \<Rightarrow> upload_event list" where
  "on_data opts body =
     (case call_callback opts ''success'' (Some body) of
        Some t \<Rightarrow> t
      | None \<Rightarrow> on_catch opts)"

definition handleUploadFiles ::
  "string option \<Rightarrow> upload_options \<Rightarrow> fetch_outcome \<Rightarrow> upload_options \<times> upload_event list" where
  "handleUploadFiles uploadUrl opts outcome =
     (case uploadUrl of
        None \<Rightarrow> (opts, [])
      | Some u \<Rightarrow>
          if u = [] then (opts, [])
          else
            (let formData = files opts;
                 opts1 = opts\<lparr>callback := StringValue ''success''\<rparr>
             in (opts1,
                 Posted u formData #
                 (case outcome of
                    FetchRejects \<Rightarrow> on_catch opts1
                  | JsonRejects \<Rightarrow> on_catch opts1
                  | Parsed body \<Rightarrow> on_data opts1 body))))"

fun is_invocation :: "upload_event \<Rightarrow> bool" where
  "is_invocation (Invoked status arg) = True"
| "is_invocation ev = False"

definition invocations :: "upload_event list \<Rightarrow> upload_event list" where
  "invocations t = filter is_invocation t"

section \<open>TEDxSurvey.tsx: the component and its effects\<close>

text \<open>
  A handler is a closure made by one run of the binding effect (lines 44 to 125); the
  number is the run that made it, so closures of different runs are different
  references.
\<close>

datatype handler =
    HandleUpdateCss nat
  | HandleUploadFiles nat
  | HandleComplete nat
  | DynamicHandler nat string

text \<open>
  The survey model: the subscriber lists of the three events the component names, and
  of every other property that is an event (\<open>None\<close> for a name that is no event, so
  that the test of line 106 fails). \<^verbatim>\<open>add\<close> appends a subscriber and \<^verbatim>\<open>remove\<close> takes
  one occurrence of it away.
\<close>

record survey_model =
  onUpdateQuestionCssClasses :: "handler list"
  onUploadFiles :: "handler list"
  onComplete :: "handler list"
  other_events :: "string \<Rightarrow> handler list option"

text \<open>\<^verbatim>\<open>(survey as any)[name]\<close>.\<close>

definition survey_event :: "survey_model \<Rightarrow> string \<Rightarrow> handler list option" where
  "survey_event sv n =
     (if n = ''onUpdateQuestionCssClasses'' then Some (onUpdateQuestionCssClasses sv)
      else if n = ''onUploadFiles'' then Some (onUploadFiles sv)
      else if n = ''onComplete'' then Some (onComplete sv)
      else other_events sv n)"

definition map_event ::
  "string \<Rightarrow> (handler list \<Rightarrow> handler list) \<Rightarrow> survey_model \<Rightarrow> survey_model" where
  "map_event n f sv =
     (if n = ''onUpdateQuestionCssClasses''
        then sv\<lparr>onUpdateQuestionCssClasses := f (onUpdateQuestionCssClasses sv)\<rparr>
      else if n = ''onUploadFiles'' then sv\<lparr>onUploadFiles := f (onUploadFiles sv)\<rparr>
      else if n = ''onComplete'' then sv\<lparr>onComplete := f (onComplete sv)\<rparr>
      else sv\<lparr>other_events := (other_events sv)(n := map_option f (other_events sv n))\<rparr>)"

datatype call = Add string handler | Remove string handler

text \<open>
  A value of a prop: a function (with its identity) or something that is no function.
  \<open>customCss\<close> is the identity of the object the caller passes, \<open>None\<close> when the prop is
  omitted; \<^verbatim>\<open>json\<close> and \<^verbatim>\<open>customAttributes\<close> do not touch the events and are left out.
\<close>

datatype propval = Fn nat | NotFunc

record props =
  customCss :: "nat option"
  uploadApiUrl :: "string option"
  onComplete_prop :: "nat option"
  otherCallbacks :: "(string \<times> propval) list"

text \<open>
  The object \<^verbatim>\<open>customCss\<close> is inside the component: the caller's, or the \<^verbatim>\<open>{}\<close> that the
  default of line 17 makes anew in each render.
\<close>

datatype objref = Passed nat | Default nat

record cleanup_closure =
  cleanup_run :: nat
  cleanup_uploadApiUrl :: "string option"

text \<open>
  The mounted component: the survey, the two refs, the number of renders and of runs
  of the binding effect, the dependencies of its last run, the cleanup that run
  returned, and the log of every \<^verbatim>\<open>add\<close> and \<^verbatim>\<open>remove\<close> call made on the survey.
\<close>

record component =
  survey :: survey_model
  onCompleteRef :: "nat option"
  otherCallbacksRef :: "(string \<times> propval) list"
  renders :: nat
  effect_runs :: nat
  last_deps :: "(objref \<times> string option) option"
  pending_cleanup :: "cleanup_closure option"
  calls :: "call list"

definition event_add :: "string \<Rightarrow> handler \<Rightarrow> component \<Rightarrow> component" where
  "event_add n h c =
     c\<lparr>survey := map_event n (\<lambda>hs. hs @ [h]) (survey c), calls := calls c @ [Add n h]\<rparr>"

definition event_remove :: "string \<Rightarrow> handler \<Rightarrow> component \<Rightarrow> component" where
  "event_remove n h c =
     c\<lparr>survey := map_event n (remove1 h) (survey c), calls := calls c @ [Remove n h]\<rparr>"

text \<open>Lines 104 to 115, the body of the \<^verbatim>\<open>forEach\<close> for one name.\<close>

definition bind_other :: "nat \<Rightarrow> string \<Rightarrow> component \<Rightarrow> component" where
  "bind_other k n c =
     (case survey_event (survey c) n of
        None \<Rightarrow> c
      | Some hs \<Rightarrow> event_add n (DynamicHandler k n) c)"

text \<open>Lines 44 to 125: the binding effect, which returns its cleanup.\<close>

definition bind_effect :: "string option \<Rightarrow> component \<Rightarrow> component" where
  "bind_effect url c =
     (let k = effect_runs c;
          c1 = event_add ''onUpdateQuestionCssClasses'' (HandleUpdateCss k) c;
          c2 = (if str_truthy url then event_add ''onUploadFiles'' (HandleUploadFiles k) c1
                else c1);
          c3 = event_add ''onComplete'' (HandleComplete k) c2;
          c4 = fold (bind_other k) (map fst (otherCallbacksRef c3)) c3
      in c4\<lparr>effect_runs := Suc k,
            pending_cleanup := Some \<lparr>cleanup_run = k, cleanup_uploadApiUrl = url\<rparr>\<rparr>)"

text \<open>Lines 118 to 124.\<close>

definition cleanup :: "cleanup_closure \<Rightarrow> component \<Rightarrow> component" where
  "cleanup cl c =
     (let k = cleanup_run cl;
          c1 = event_remove ''onUpdateQuestionCssClasses'' (HandleUpdateCss k) c;
          c2 = event_remove ''onComplete'' (HandleComplete k) c1
      in if str_truthy (cleanup_uploadApiUrl cl)
         then event_remove ''onUploadFiles'' (HandleUploadFiles k) c2
         else c2)"

definition run_cleanup :: "component \<Rightarrow> component" where
  "run_cleanup c =
     (case pending_cleanup c of
        None \<Rightarrow> c
      | Some cl \<Rightarrow> (cleanup cl c)\<lparr>pending_cleanup := None\<rparr>)"

text \<open>Lines 39 to 42: the effect without dependencies, run after every render.\<close>

definition update_refs :: "props \<Rightarrow> component \<Rightarrow> component" where
  "update_refs p c = c\<lparr>onCompleteRef := onComplete_prop p, otherCallbacksRef := otherCallbacks p\<rparr>"

definition deps_of :: "props \<Rightarrow> nat \<Rightarrow> objref \<times> string option" where
  "deps_of p k =
     ((case customCss p of Some i \<Rightarrow> Passed i | None \<Rightarrow> Default k), uploadApiUrl p)"

text \<open>
  The first render of the component on a survey: the refs start at the first props,
  then the effects run in the order they are written.
\<close>

definition mount :: "survey_model \<Rightarrow> props \<Rightarrow> component" where
  "mount sv p =
     bind_effect (uploadApiUrl p)
       (update_refs p
          \<lparr>survey = sv, onCompleteRef = onComplete_prop p, otherCallbacksRef = otherCallbacks p,
           renders = 1, effect_runs = 0, last_deps = Some (deps_of p 0),
           pending_cleanup = None, calls = []\<rparr>)"

text \<open>
  A later render: the cleanup of the binding effect runs when a dependency of line 125
  is another reference than at its last run, then the effects run in order: the refs
  are updated, and the binding effect runs again when a dependency changed.
\<close>

definition rerender :: "props \<Rightarrow> component \<Rightarrow> component" where
  "rerender p c =
     (let deps = deps_of p (renders c);
          changed = (last_deps c \<noteq> Some deps);
          c1 = (if changed then run_cleanup c else c);
          c2 = update_refs p c1;
          c3 = (if changed then bind_effect (uploadApiUrl p) c2 else c2)
      in c3\<lparr>renders := Suc (renders c), last_deps := Some deps\<rparr>)"

definition unmount :: "component \<Rightarrow> component" where
  "unmount c = run_cleanup c"

text \<open>
  What a subscriber does when the engine fires its event: the identities of the
  caller's functions it invokes (lines 107 to 112 and 95 to 100). The two other
  built-in handlers invoke no function of the caller.
\<close>

fun invoke :: "component \<Rightarrow> handler \<Rightarrow> nat list" where
  "invoke c (DynamicHandler k n) =
     (case map_of (otherCallbacksRef c) n of
        Some (Fn f) \<Rightarrow> [f]
      | Some NotFunc \<Rightarrow> []
      | None \<Rightarrow> [])"
| "invoke c (HandleComplete k) = (case onCompleteRef c of Some f \<Rightarrow> [f] | None \<Rightarrow> [])"
| "invoke c (HandleUpdateCss k) = []"
| "invoke c (HandleUploadFiles k) = []"

definition fire :: "string \<Rightarrow> component \<Rightarrow> nat list" where
  "fire n c =
     (case survey_event (survey c) n of
        None \<Rightarrow> []
      | Some hs \<Rightarrow> concat (map (invoke c) hs))"

definition adds_of :: "string \<Rightarrow> handler \<Rightarrow> call list \<Rightarrow> nat" where
  "adds_of n h cs = length (filter (\<lambda>x. x = Add n h) cs)"

definition removes_of :: "string \<Rightarrow> handler \<Rightarrow> call list \<Rightarrow> nat" where
  "removes_of n h cs = length (filter (\<lambda>x. x = Remove n h) cs)"

text \<open>A sequence of later renders.\<close>

fun rerenders :: "props list \<Rightarrow> component \<Rightarrow> component" where
  "rerenders [] c = c"
| "rerenders (p # ps) c = rerenders ps (rerender p c)"

text \<open>The names of the three events the component subscribes its own handlers to.\<close>

definition builtin_event :: "string \<Rightarrow> bool" where
  "builtin_event n =
     (n = ''onUpdateQuestionCssClasses'' \<or> n = ''onUploadFiles'' \<or> n = ''onComplete'')"

text \<open>A \<^verbatim>\<open>remove\<close> call whose argument is a dynamic handler.\<close>

fun is_dynamic_remove :: "call \<Rightarrow> bool" where
  "is_dynamic_remove (Remove n (DynamicHandler k m)) = True"
| "is_dynamic_remove x = False"

text \<open>No sink was written between two states of the server.\<close>

definition sinks_unchanged :: "server \<Rightarrow> server \<Rightarrow> bool" where
  "sinks_unchanged s s' =
     (documents s' = documents s \<and> sheet_requests s' = sheet_requests s \<and>
      sheet_rows s' = sheet_rows s)"

section \<open>Example inputs\<close>

text \<open>The decimal form of an integer, which is how JavaScript prints a safe integer.\<close>

fun nat_digits :: "nat \<Rightarrow> string" where
  "nat_digits n =
     (if n < 10 then [''0123456789'' ! n]
      else nat_digits (n div 10) @ [''0123456789'' ! (n mod 10)])"

declare nat_digits.simps [simp del]

definition decimal :: "int \<Rightarrow> string" where
  "decimal i = (if i < 0 then CHR ''-'' # nat_digits (nat (- i)) else nat_digits (nat i))"

definition env_ok :: env where
  "env_ok = \<lparr>MONGO_URI = Some ''mongodb://localhost/tedx'', connect = (\<lambda>cs. Inr 1),
             countDocuments_rejects = None, save_rejects = None, append_rejects = None,
             Date_now = 1000, Number_toString = decimal\<rparr>"

definition env_unset :: env where
  "env_unset = env_ok\<lparr>MONGO_URI := None\<rparr>"

definition env_down :: env where
  "env_down = env_ok\<lparr>connect := (\<lambda>cs. Inl ''ECONNREFUSED'')\<rparr>"

definition server_init :: server where
  "server_init = \<lparr>cached_conn = None, cached_promise = None, connect_calls = [],
                  documents = [], sheet_requests = [], sheet_rows = (\<lambda>k. [])\<rparr>"

definition payload_ann :: payload where
  "payload_ann = [(''name'', JStr ''Ann''), (''email'', JStr ''a@x.com'')]"

definition payload_no_email :: payload where
  "payload_no_email = [(''name'', JStr ''Ann'')]"

definition payload_42 :: payload where
  "payload_42 = [(''email'', JNum 42)]"

definition sheet_a1 :: googleSheet_options where
  "sheet_a1 = \<lparr>spreadsheetId = ''sheet'', sheet_range = ''A1'', apiKey = ''key'',
               accessToken = None\<rparr>"

definition options_sheet_only :: options where
  "options_sheet_only = \<lparr>mongo = None, mongoUri = None, checkDuplicate = None,
                         googleSheet = Some sheet_a1, gcp = None\<rparr>"

definition options_both_unique :: options where
  "options_both_unique = \<lparr>mongo = Some True, mongoUri = None, checkDuplicate = Some True,
                          googleSheet = Some sheet_a1, gcp = None\<rparr>"


definition options_unique_no_mongo :: options where
  "options_unique_no_mongo = \<lparr>mongo = None, mongoUri = None, checkDuplicate = Some True,
                              googleSheet = Some sheet_a1, gcp = None\<rparr>"

definition server_with_ann :: server where
  "server_with_ann =
     server_init\<lparr>documents := [\<lparr>surveyId = None, email = ''a@x.com'',
                                   data = payload_ann, createdAt = 999\<rparr>]\<rparr>"

definition doc_ann :: survey_response where
  "doc_ann = \<lparr>surveyId = None, email = ''a@x.com'', data = payload_ann, createdAt = 1000\<rparr>"

definition config_a :: gcp_config where
  "config_a = \<lparr>credentials = [(''client_email'', JStr ''a@project.iam'')],
               bucketName = ''uploads''\<rparr>"

definition config_b :: gcp_config where
  "config_b = \<lparr>credentials = [(''client_email'', JStr ''b@project.iam'')],
               bucketName = ''uploads''\<rparr>"

definition config_c :: gcp_config where
  "config_c = \<lparr>credentials = [(''client_email'', JStr ''a@project.iam'')],
               bucketName = ''archive''\<rparr>"

definition bucket_a :: bucket where
  "bucket_a = \<lparr>name = ''uploads'',
               bucket_storage = \<lparr>storage_credentials = credentials config_a\<rparr>\<rparr>"

definition module_a :: bucket_module where
  "module_a = \<lparr>cachedStorage = Some \<lparr>storage_credentials = credentials config_a\<rparr>,
               cachedBucket = Some bucket_a, storages_constructed = 1\<rparr>"

definition config_empty :: gcp_config where
  "config_empty = config_b\<lparr>bucketName := []\<rparr>"

definition upload_event_a :: upload_options where
  "upload_event_a = \<lparr>files = [''a.png''], callback = EngineCallback\<rparr>"

definition survey_fresh :: survey_model where
  "survey_fresh = \<lparr>onUpdateQuestionCssClasses = [], onUploadFiles = [], onComplete = [],
                   other_events = (\<lambda>n. if n = ''onValueChanged'' then Some [] else None)\<rparr>"

definition props_f :: props where
  "props_f = \<lparr>customCss = Some 1, uploadApiUrl = None, onComplete_prop = None,
              otherCallbacks = [(''onValueChanged'', Fn 1)]\<rparr>"

definition props_g :: props where
  "props_g = props_f\<lparr>otherCallbacks := [(''onValueChanged'', Fn 2)]\<rparr>"

definition props_g_new_css :: props where
  "props_g_new_css = props_g\<lparr>customCss := Some 2\<rparr>"

definition props_f_no_css :: props where
  "props_f_no_css = props_f\<lparr>customCss := None\<rparr>"

definition props_g_no_css :: props where
  "props_g_no_css = props_g\<lparr>customCss := None\<rparr>"

section \<open>The connection and the sinks it leaves alone\<close>

lemma dbConnect_cases:
  "dbConnect e uri s = (r, s') \<Longrightarrow>
     documents s' = documents s \<and> sheet_requests s' = sheet_requests s \<and> sheet_rows s' = sheet_rows s"
  by (auto simp: dbConnect_def ensure_promise_def split: option.splits if_splits sum.splits prod.splits)

lemma dbConnect_keeps:
  "documents (snd (dbConnect e uri s)) = documents s"
  "sheet_requests (snd (dbConnect e uri s)) = sheet_requests s"
  "sheet_rows (snd (dbConnect e uri s)) = sheet_rows s"
  using dbConnect_cases [of e uri s "fst (dbConnect e uri s)" "snd (dbConnect e uri s)"] by simp_all

lemma dbConnect_ok_conn:
  "fst (dbConnect e uri s) = Inr c \<Longrightarrow> cached_conn (snd (dbConnect e uri s)) = Some c"
  by (auto simp: dbConnect_def ensure_promise_def split: option.splits if_splits sum.splits prod.splits)

lemma dbConnect_ok_string:
  "fst (dbConnect e uri s) = Inr c \<Longrightarrow> str_truthy (connectionString e uri)"
  by (auto simp: dbConnect_def str_truthy_def split: option.splits if_splits)

lemma dbConnect_cached:
  "str_truthy (connectionString e uri) \<Longrightarrow> cached_conn s = Some c \<Longrightarrow> dbConnect e uri s = (Inr c, s)"
  by (auto simp: dbConnect_def str_truthy_def split: option.splits)

lemma dbConnect_again:
  "fst (dbConnect e uri s) = Inr c \<Longrightarrow>
   dbConnect e uri (snd (dbConnect e uri s)) = (Inr c, snd (dbConnect e uri s))"
  by (simp add: dbConnect_cached dbConnect_ok_conn dbConnect_ok_string)

lemma checkDuplicateEmail_keeps:
  "documents (snd (checkDuplicateEmail e v uri s)) = documents s"
  "sheet_requests (snd (checkDuplicateEmail e v uri s)) = sheet_requests s"
  "sheet_rows (snd (checkDuplicateEmail e v uri s)) = sheet_rows s"
  using dbConnect_keeps [of e uri s]
  by (auto simp: checkDuplicateEmail_def split: prod.splits sum.splits)

lemma checkDuplicateEmail_connected:
  "fst (dbConnect e uri s) = Inr c \<Longrightarrow> countDocuments_rejects e = None \<Longrightarrow>
   fst (checkDuplicateEmail e v uri s) = Inr (0 < length (filter (\<lambda>r. email r = v) (documents s)))"
  using dbConnect_keeps(1) [of e uri s]
  by (auto simp: checkDuplicateEmail_def countDocuments_def split: prod.splits sum.splits)


lemma duplicate_guard_keeps:
  "documents (snd (duplicate_guard e em cd uri s)) = documents s"
  "sheet_requests (snd (duplicate_guard e em cd uri s)) = sheet_requests s"
  "sheet_rows (snd (duplicate_guard e em cd uri s)) = sheet_rows s"
  using checkDuplicateEmail_keeps [of e "js_String e em" uri s]
  by (auto simp: duplicate_guard_def split: prod.splits sum.splits)

lemma saveToMongoDB_keeps_sheet:
  "sheet_requests (snd (saveToMongoDB e d cd uri s)) = sheet_requests s"
  "sheet_rows (snd (saveToMongoDB e d cd uri s)) = sheet_rows s"
  using dbConnect_keeps [of e uri s]
    duplicate_guard_keeps [of e "uniqueness_key d" cd uri "snd (dbConnect e uri s)"]
  by (auto simp: saveToMongoDB_def model_save_def Let_def split: prod.splits sum.splits option.splits)

lemma saveToMongoDB_fails_keeps_documents:
  "fst (saveToMongoDB e d cd uri s) = Inl err \<Longrightarrow>
   documents (snd (saveToMongoDB e d cd uri s)) = documents s"
  using dbConnect_keeps [of e uri s]
    duplicate_guard_keeps [of e "uniqueness_key d" cd uri "snd (dbConnect e uri s)"]
  by (auto simp: saveToMongoDB_def model_save_def Let_def split: prod.splits sum.splits option.splits)

lemma saveToMongoDB_no_guard:
  "fst (dbConnect e uri s) = Inr c \<Longrightarrow> save_rejects e = None \<Longrightarrow>
   saveToMongoDB e d False uri s =
     (Inr \<lparr>surveyId = None, email = js_String e (js_or (uniqueness_key d) (JStr ''anonymous'')),
            data = d, createdAt = Date_now e\<rparr>,
      (snd (dbConnect e uri s))\<lparr>documents := documents s @
        [\<lparr>surveyId = None, email = js_String e (js_or (uniqueness_key d) (JStr ''anonymous'')),
            data = d, createdAt = Date_now e\<rparr>]\<rparr>)"
  using dbConnect_keeps(1) [of e uri s]
  by (auto simp: saveToMongoDB_def model_save_def duplicate_guard_def Let_def split: prod.splits sum.splits)


lemma dbConnect_env_ok:
  "dbConnect env_ok None server_init =
     (Inr 1, server_init\<lparr>cached_conn := Some 1, cached_promise := Some (Inr 1),
                         connect_calls := [''mongodb://localhost/tedx'']\<rparr>)"
  by (simp add: dbConnect_def connectionString_def str_truthy_def ensure_promise_def
      env_ok_def server_init_def)

section \<open>Saving without an email\<close>

text \<open>
  C10. \<open>saveToMongoDB\<close> called with duplicate checking disabled on a payload that has
  neither an \<^verbatim>\<open>email\<close> nor an \<^verbatim>\<open>Email\<close> property does not fail when the connection is up
  and the store accepts the write: it returns, and appends to the collection, the
  record whose email is the string \<^verbatim>\<open>anonymous\<close>, whose \<open>data\<close> is the whole payload and
  whose creation time is the clock's.
\<close>

theorem saveToMongoDB_anonymous:
  assumes "map_of d ''email'' = None" and "map_of d ''Email'' = None"
    and "fst (dbConnect e uri s) = Inr c" and "save_rejects e = None"
  shows "fst (saveToMongoDB e d False uri s) =
           Inr \<lparr>surveyId = None, email = ''anonymous'', data = d, createdAt = Date_now e\<rparr>
         \<and> documents (snd (saveToMongoDB e d False uri s)) =
             documents s @ [\<lparr>surveyId = None, email = ''anonymous'', data = d,
                              createdAt = Date_now e\<rparr>]"
proof -
  have "uniqueness_key d = JUndefined"
    using assms(1,2) by (simp add: uniqueness_key_def get_prop_def js_or_def)
  then show ?thesis
    using saveToMongoDB_no_guard [OF assms(3,4), of d] by (simp add: js_or_def)
qed

theorem saveToMongoDB_anonymous_witness:
  "fst (saveToMongoDB env_ok payload_no_email False None server_init) =
     Inr \<lparr>surveyId = None, email = ''anonymous'', data = payload_no_email,
          createdAt = 1000\<rparr>
   \<and> documents (snd (saveToMongoDB env_ok payload_no_email False None server_init)) =
       [\<lparr>surveyId = None, email = ''anonymous'', data = payload_no_email,
         createdAt = 1000\<rparr>]"
proof -
  have 1: "map_of payload_no_email ''email'' = None" "map_of payload_no_email ''Email'' = None"
    by (simp_all add: payload_no_email_def)
  have 2: "fst (dbConnect env_ok None server_init) = Inr 1"
    by (simp add: dbConnect_env_ok)
  have 3: "save_rejects env_ok = None" "Date_now env_ok = 1000" "documents server_init = []"
    by (simp_all add: env_ok_def server_init_def)
  show ?thesis
    using saveToMongoDB_anonymous [OF 1 2 3(1)] by (simp add: 3)
qed


section \<open>Connecting\<close>

lemma no_string:
  "\<not> str_truthy uri \<Longrightarrow> \<not> str_truthy (MONGO_URI e) \<Longrightarrow>
   dbConnect e uri s = (Inl NoConnectionString, s)"
  by (auto simp: dbConnect_def connectionString_def str_truthy_def split: option.splits)

lemma rejected_clears:
  assumes "connectionString e uri = Some cs" "cs \<noteq> []" "cached_conn s = None"
    and "fst (ensure_promise e cs s) = Inl r"
  shows "fst (dbConnect e uri s) = Inl (Rejected r)"
    and "cached_promise (snd (dbConnect e uri s)) = None"
    and "cached_conn (snd (dbConnect e uri s)) = None"
  using assms
  by (auto simp: dbConnect_def ensure_promise_def split: prod.splits sum.splits option.splits)

lemma reattempt:
  assumes "connectionString e' uri' = Some cs'" "cs' \<noteq> []"
    and "cached_conn s = None" "cached_promise s = None"
  shows "connect_calls (snd (dbConnect e' uri' s)) = connect_calls s @ [cs']"
    and "fst (dbConnect e' uri' s) =
           (case connect e' cs' of Inl r' \<Rightarrow> Inl (Rejected r') | Inr c \<Rightarrow> Inr c)"
  using assms by (auto simp: dbConnect_def ensure_promise_def split: prod.splits sum.splits)

lemma dbConnect_env_down:
  "dbConnect env_down None server_init =
     (Inl (Rejected ''ECONNREFUSED''),
      server_init\<lparr>connect_calls := [''mongodb://localhost/tedx'']\<rparr>)"
  by (simp add: dbConnect_def connectionString_def str_truthy_def ensure_promise_def
      env_down_def env_ok_def server_init_def)

text \<open>
  C9. \<open>dbConnect\<close> fails at once, changing nothing, when neither its argument nor the
  environment gives a connection string. When no connection is cached and the
  promise it awaits rejects, it fails with that rejection and leaves neither a
  connection nor a promise in the cache; the next call with a connection string then
  calls \<^verbatim>\<open>mongoose.connect\<close> again and returns what that attempt gives.
\<close>

theorem dbConnect_fails_fast_and_retries:
  "(\<not> str_truthy uri \<and> \<not> str_truthy (MONGO_URI e) \<longrightarrow>
      dbConnect e uri s = (Inl NoConnectionString, s)) \<and>
   (connectionString e uri = Some cs \<and> cs \<noteq> [] \<and> cached_conn s = None \<and>
    fst (ensure_promise e cs s) = Inl r \<longrightarrow>
      fst (dbConnect e uri s) = Inl (Rejected r) \<and>
      cached_promise (snd (dbConnect e uri s)) = None \<and>
      cached_conn (snd (dbConnect e uri s)) = None \<and>
      (connectionString e' uri' = Some cs' \<and> cs' \<noteq> [] \<longrightarrow>
         connect_calls (snd (dbConnect e' uri' (snd (dbConnect e uri s)))) =
           connect_calls (snd (dbConnect e uri s)) @ [cs'] \<and>
         fst (dbConnect e' uri' (snd (dbConnect e uri s))) =
           (case connect e' cs' of Inl r' \<Rightarrow> Inl (Rejected r') | Inr c \<Rightarrow> Inr c)))"
proof (intro conjI impI)
  assume "\<not> str_truthy uri \<and> \<not> str_truthy (MONGO_URI e)"
  then show "dbConnect e uri s = (Inl NoConnectionString, s)"
    by (simp add: no_string)
next
  assume a: "connectionString e uri = Some cs \<and> cs \<noteq> [] \<and> cached_conn s = None \<and>
    fst (ensure_promise e cs s) = Inl r"
  then show "fst (dbConnect e uri s) = Inl (Rejected r)"
    and p: "cached_promise (snd (dbConnect e uri s)) = None"
    and c: "cached_conn (snd (dbConnect e uri s)) = None"
    by (simp_all add: rejected_clears)
  assume b: "connectionString e' uri' = Some cs' \<and> cs' \<noteq> []"
  show "connect_calls (snd (dbConnect e' uri' (snd (dbConnect e uri s)))) =
           connect_calls (snd (dbConnect e uri s)) @ [cs']"
    using b p c by (simp add: reattempt(1))
  show "fst (dbConnect e' uri' (snd (dbConnect e uri s))) =
           (case connect e' cs' of Inl r' \<Rightarrow> Inl (Rejected r') | Inr c \<Rightarrow> Inr c)"
    using b p c by (simp add: reattempt(2))
qed

theorem dbConnect_fails_fast_and_retries_witness:
  "dbConnect env_unset None server_init = (Inl NoConnectionString, server_init) \<and>
   fst (dbConnect env_down None server_init) = Inl (Rejected ''ECONNREFUSED'') \<and>
   cached_promise (snd (dbConnect env_down None server_init)) = None \<and>
   cached_conn (snd (dbConnect env_down None server_init)) = None \<and>
   connect_calls (snd (dbConnect env_ok None (snd (dbConnect env_down None server_init)))) =
     [''mongodb://localhost/tedx'', ''mongodb://localhost/tedx''] \<and>
   fst (dbConnect env_ok None (snd (dbConnect env_down None server_init))) = Inr 1"
proof -
  have 1: "\<not> str_truthy None" "\<not> str_truthy (MONGO_URI env_unset)"
    by (simp_all add: str_truthy_def env_unset_def env_ok_def)
  have 2: "connectionString env_down None = Some ''mongodb://localhost/tedx''"
    "connectionString env_ok None = Some ''mongodb://localhost/tedx''"
    by (simp_all add: connectionString_def str_truthy_def env_down_def env_ok_def)
  have 3: "cached_conn server_init = None"
    "fst (ensure_promise env_down ''mongodb://localhost/tedx'' server_init) = Inl ''ECONNREFUSED''"
    by (simp_all add: server_init_def ensure_promise_def env_down_def env_ok_def)
  have 4: "connect env_ok ''mongodb://localhost/tedx'' = Inr 1"
    by (simp add: env_ok_def)
  show ?thesis
    using dbConnect_fails_fast_and_retries [where uri = None and e = env_down
        and s = server_init and cs = "''mongodb://localhost/tedx''" and r = "''ECONNREFUSED''"
        and e' = env_ok and uri' = None and cs' = "''mongodb://localhost/tedx''"]
      dbConnect_fails_fast_and_retries [where uri = None and e = env_unset and s = server_init]
    by (simp add: 1 2 3 4 dbConnect_env_down)
qed


section \<open>The duplicate guard\<close>

lemma saveToMongoDB_ok_connected:
  "fst (saveToMongoDB e d cd uri s) = Inr doc \<Longrightarrow>
   \<exists>c. fst (dbConnect e uri s) = Inr c"
  by (auto simp: saveToMongoDB_def split: prod.splits sum.splits)

lemma saveToMongoDB_ok_accepted:
  "fst (saveToMongoDB e d cd uri s) = Inr doc \<Longrightarrow> save_rejects e = None"
  by (auto simp: saveToMongoDB_def model_save_def Let_def split: prod.splits sum.splits option.splits)

lemma checkDuplicateEmail_after_save:
  assumes k: "truthy (uniqueness_key d)"
    and ok: "fst (saveToMongoDB e d False uri s) = Inr doc"
    and cnt: "countDocuments_rejects e = None"
  shows "fst (checkDuplicateEmail e (js_String e (uniqueness_key d)) uri
                (snd (saveToMongoDB e d False uri s))) = Inr True"
proof -
  obtain c where c: "fst (dbConnect e uri s) = Inr c"
    using saveToMongoDB_ok_connected [OF ok] by blast
  have acc: "save_rejects e = None"
    using saveToMongoDB_ok_accepted [OF ok] .
  define r where "r = \<lparr>surveyId = None, email = js_String e (uniqueness_key d), data = d,
                        createdAt = Date_now e\<rparr>"
  define s1 where "s1 = snd (dbConnect e uri s)"
  have st: "snd (saveToMongoDB e d False uri s) = s1\<lparr>documents := documents s @ [r]\<rparr>"
    using saveToMongoDB_no_guard [OF c acc, of d] k by (simp add: js_or_def r_def s1_def)
  have "cached_conn (s1\<lparr>documents := documents s @ [r]\<rparr>) = Some c"
    using dbConnect_ok_conn [OF c] by (simp add: s1_def)
  then have "dbConnect e uri (s1\<lparr>documents := documents s @ [r]\<rparr>) =
      (Inr c, s1\<lparr>documents := documents s @ [r]\<rparr>)"
    using dbConnect_cached dbConnect_ok_string [OF c] by blast
  then have "fst (dbConnect e uri (snd (saveToMongoDB e d False uri s))) = Inr c"
    by (simp add: st)
  then show ?thesis
    using checkDuplicateEmail_connected [OF _ cnt, of uri "snd (saveToMongoDB e d False uri s)" c
        "js_String e (uniqueness_key d)"]
    by (simp add: st r_def)
qed

lemma saveToMongoDB_env_ok:
  "saveToMongoDB env_ok payload_ann False None server_init =
     (Inr \<lparr>surveyId = None, email = ''a@x.com'', data = payload_ann, createdAt = 1000\<rparr>,
      server_init\<lparr>cached_conn := Some 1, cached_promise := Some (Inr 1),
                  connect_calls := [''mongodb://localhost/tedx''],
                  documents := [\<lparr>surveyId = None, email = ''a@x.com'',
                                  data = payload_ann, createdAt = 1000\<rparr>]\<rparr>)"
proof -
  have k: "uniqueness_key payload_ann = JStr ''a@x.com''"
    by (simp add: uniqueness_key_def get_prop_def js_or_def payload_ann_def)
  have "fst (dbConnect env_ok None server_init) = Inr 1"
    by (simp add: dbConnect_env_ok)
  moreover have "save_rejects env_ok = None"
    by (simp add: env_ok_def)
  ultimately show ?thesis
    using saveToMongoDB_no_guard [of env_ok None server_init 1 payload_ann]
    by (simp add: k js_or_def dbConnect_env_ok) (simp add: env_ok_def server_init_def)
qed

text \<open>
  C7. For every key of its signature (a string), with the connection up and the count
  query answered, \<open>checkDuplicateEmail\<close> returns whether the number of stored records
  with that email is greater than zero; whenever it returns, that is its result. After
  \<open>saveToMongoDB\<close> has saved a payload with a truthy key, it returns true for the string
  the key is stored as (the key itself when it is a string).
\<close>

theorem checkDuplicateEmail_iff_count:
  "(fst (dbConnect e uri s) = Inr c \<and> countDocuments_rejects e = None \<longrightarrow>
      fst (checkDuplicateEmail e x uri s) =
        Inr (0 < length (filter (\<lambda>r. email r = x) (documents s)))) \<and>
   (fst (checkDuplicateEmail e x uri s) = Inr b \<longrightarrow>
      b = (0 < length (filter (\<lambda>r. email r = x) (documents s)))) \<and>
   (truthy (uniqueness_key d) \<and> countDocuments_rejects e = None \<and>
    fst (saveToMongoDB e d False uri s) = Inr doc \<longrightarrow>
      fst (checkDuplicateEmail e (js_String e (uniqueness_key d)) uri
             (snd (saveToMongoDB e d False uri s))) = Inr True) \<and>
   js_String e (JStr x) = x"
proof (intro conjI impI)
  assume "fst (dbConnect e uri s) = Inr c \<and> countDocuments_rejects e = None"
  then show "fst (checkDuplicateEmail e x uri s) =
        Inr (0 < length (filter (\<lambda>r. email r = x) (documents s)))"
    by (simp add: checkDuplicateEmail_connected)
next
  assume "fst (checkDuplicateEmail e x uri s) = Inr b"
  then show "b = (0 < length (filter (\<lambda>r. email r = x) (documents s)))"
    using dbConnect_keeps(1) [of e uri s]
    by (auto simp: checkDuplicateEmail_def countDocuments_def
        split: prod.splits sum.splits option.splits)
next
  assume "truthy (uniqueness_key d) \<and> countDocuments_rejects e = None \<and>
    fst (saveToMongoDB e d False uri s) = Inr doc"
  then show "fst (checkDuplicateEmail e (js_String e (uniqueness_key d)) uri
             (snd (saveToMongoDB e d False uri s))) = Inr True"
    using checkDuplicateEmail_after_save by blast
next
  show "js_String e (JStr x) = x" by simp
qed

theorem checkDuplicateEmail_iff_count_witness:
  "fst (checkDuplicateEmail env_ok ''a@x.com'' None server_init) = Inr False \<and>
   fst (checkDuplicateEmail env_ok ''a@x.com'' None
          (snd (saveToMongoDB env_ok payload_ann False None server_init))) = Inr True"
proof -
  have 0: "fst (dbConnect env_ok None server_init) = Inr 1"
    by (simp add: dbConnect_env_ok)
  have 1: "countDocuments_rejects env_ok = None" "documents server_init = []"
    by (simp_all add: env_ok_def server_init_def)
  have 2: "uniqueness_key payload_ann = JStr ''a@x.com''"
    by (simp add: uniqueness_key_def get_prop_def js_or_def payload_ann_def)
  have 3: "fst (saveToMongoDB env_ok payload_ann False None server_init) =
     Inr \<lparr>surveyId = None, email = ''a@x.com'', data = payload_ann, createdAt = 1000\<rparr>"
    by (simp add: saveToMongoDB_env_ok)
  show ?thesis
    using checkDuplicateEmail_iff_count [where e = env_ok and uri = None and s = server_init
        and c = 1 and x = "''a@x.com''" and d = payload_ann and b = False
        and doc = "\<lparr>surveyId = None, email = ''a@x.com'', data = payload_ann,
                     createdAt = 1000\<rparr>"]
    by (simp add: 0 1 2 3)
qed

text \<open>
  A key that is a number is stored, and counted, as its string form: after a payload
  with the email 42 is saved, the record's email is the string 42 and
  \<open>checkDuplicateEmail\<close> is true of that string.
\<close>

lemma decimal_42: "decimal 42 = ''42''"
  by (simp add: decimal_def nat_digits.simps)

lemma number_key_stored_as_string:
  "fst (saveToMongoDB env_ok payload_42 False None server_init) =
     Inr \<lparr>surveyId = None, email = ''42'', data = payload_42, createdAt = 1000\<rparr> \<and>
   fst (checkDuplicateEmail env_ok ''42'' None
          (snd (saveToMongoDB env_ok payload_42 False None server_init))) = Inr True"
proof -
  have k: "uniqueness_key payload_42 = JNum 42"
    by (simp add: uniqueness_key_def get_prop_def js_or_def payload_42_def)
  have n: "Number_toString env_ok 42 = ''42''"
    by (simp add: env_ok_def decimal_42)
  have c: "fst (dbConnect env_ok None server_init) = Inr 1"
    by (simp add: dbConnect_env_ok)
  have e: "save_rejects env_ok = None" "countDocuments_rejects env_ok = None"
    "Date_now env_ok = 1000"
    by (simp_all add: env_ok_def)
  have sv: "fst (saveToMongoDB env_ok payload_42 False None server_init) =
     Inr \<lparr>surveyId = None, email = ''42'', data = payload_42, createdAt = 1000\<rparr>"
    using saveToMongoDB_no_guard [OF c e(1), of payload_42] by (simp add: k n e js_or_def)
  show ?thesis
    using checkDuplicateEmail_after_save [OF _ sv e(2)] by (simp add: sv k n)
qed

section \<open>The submission entry point\<close>

lemma saveToMongoDB_missing_key:
  "\<not> truthy (uniqueness_key d) \<Longrightarrow>
   saveToMongoDB e d True uri s =
     (case dbConnect e uri s of
        (Inl err, s1) \<Rightarrow> (Inl err, s1)
      | (Inr c, s1) \<Rightarrow> (Inl EmailRequired, s1))"
  by (simp add: saveToMongoDB_def duplicate_guard_def split: prod.splits sum.splits)

lemma saveToMongoDB_duplicate:
  assumes "truthy (uniqueness_key d)"
    and "0 < length (filter (\<lambda>r. email r = js_String e (uniqueness_key d)) (documents s))"
  shows "saveToMongoDB e d True uri s =
     (case dbConnect e uri s of
        (Inl err, s1) \<Rightarrow> (Inl err, s1)
      | (Inr c, s1) \<Rightarrow>
          (case countDocuments_rejects e of
             Some m \<Rightarrow> (Inl (Rejected m), s1)
           | None \<Rightarrow> (Inl (SubmissionExists (uniqueness_key d)), s1)))"
proof (cases "dbConnect e uri s")
  case (Pair r s1)
  show ?thesis
  proof (cases r)
    case (Inl err)
    with Pair show ?thesis by (simp add: saveToMongoDB_def)
  next
    case (Inr c)
    with Pair have c: "fst (dbConnect e uri s) = Inr c" and s1: "s1 = snd (dbConnect e uri s)"
      by simp_all
    have again: "dbConnect e uri s1 = (Inr c, s1)"
      using dbConnect_again [OF c] s1 by simp
    have docs: "documents s1 = documents s"
      using dbConnect_keeps(1) [of e uri s] s1 by simp
    show ?thesis
      using assms Pair Inr again docs
      by (simp add: saveToMongoDB_def duplicate_guard_def checkDuplicateEmail_def
          countDocuments_def split: option.splits)
  qed
qed

lemma handleSurveySubmission_save_fails:
  "mongo opts = Some True \<Longrightarrow>
   fst (saveToMongoDB e d (checkDuplicate opts = Some True) (mongoUri opts) s) = Inl err \<Longrightarrow>
   handleSurveySubmission e d opts s =
     (Inl err, snd (saveToMongoDB e d (checkDuplicate opts = Some True) (mongoUri opts) s))"
  by (cases "saveToMongoDB e d (checkDuplicate opts = Some True) (mongoUri opts) s")
    (simp add: handleSurveySubmission_def save_step_def)

lemma saveToMongoDB_fails_sinks_unchanged:
  "fst (saveToMongoDB e d cd uri s) = Inl err \<Longrightarrow>
   sinks_unchanged s (snd (saveToMongoDB e d cd uri s))"
  by (simp add: sinks_unchanged_def saveToMongoDB_keeps_sheet saveToMongoDB_fails_keeps_documents)

lemma dbConnect_server_with_ann:
  "dbConnect env_ok None server_with_ann =
     (Inr 1, server_with_ann\<lparr>cached_conn := Some 1, cached_promise := Some (Inr 1),
                             connect_calls := [''mongodb://localhost/tedx'']\<rparr>)"
  by (simp add: dbConnect_def connectionString_def str_truthy_def ensure_promise_def
      env_ok_def server_with_ann_def server_init_def)

lemma handleSurveySubmission_no_mongo:
  assumes "mongo opts \<noteq> Some True" and "googleSheet opts = Some g"
  shows "handleSurveySubmission e d opts s =
     (case append_rejects e of
        Some m \<Rightarrow> Inl (Rejected m)
      | None \<Rightarrow> Inr \<lparr>results_mongo = None, results_sheets = Some 1\<rparr>,
      s\<lparr>sheet_requests := sheet_requests s @
           [\<lparr>req_spreadsheetId = spreadsheetId g, req_range = sheet_range g,
             req_apiKey = apiKey g, req_values = [map snd d],
             req_accessToken = accessToken g\<rparr>],
        sheet_rows :=
          (case append_rejects e of
             Some m \<Rightarrow> sheet_rows s
           | None \<Rightarrow> (sheet_rows s)((spreadsheetId g, sheet_range g) :=
                       sheet_rows s (spreadsheetId g, sheet_range g) @ [map snd d]))\<rparr>)"
  using assms
  by (simp add: handleSurveySubmission_def save_step_def sheet_step_def appendToGoogleSheet_def
      Object_values_def Let_def split: option.splits)

lemma save_step_mongo_key:
  "fst (save_step e d opts s) = Inr res \<Longrightarrow> results_sheets res = None \<and>
   (case results_mongo res of
      None \<Rightarrow> mongo opts \<noteq> Some True
    | Some doc \<Rightarrow> mongo opts = Some True \<and>
        fst (saveToMongoDB e d (checkDuplicate opts = Some True) (mongoUri opts) s) = Inr doc)"
  by (cases "saveToMongoDB e d (checkDuplicate opts = Some True) (mongoUri opts) s")
    (auto simp: save_step_def split: if_splits sum.splits)

lemma sheet_step_keys:
  "fst (sheet_step e d opts res0 s1) = Inr res \<Longrightarrow>
   results_mongo res = results_mongo res0 \<and>
   (case googleSheet opts of
      None \<Rightarrow> results_sheets res = results_sheets res0
    | Some g \<Rightarrow>
        (\<exists>n. results_sheets res = Some n \<and>
           fst (appendToGoogleSheet e (spreadsheetId g) (sheet_range g) (apiKey g)
                  [Object_values d] (accessToken g) s1) = Inr n))"
  by (cases "googleSheet opts")
    (auto simp: sheet_step_def Let_def split: prod.splits sum.splits)

lemma handleSurveySubmission_steps:
  "fst (handleSurveySubmission e d opts s) = Inr res \<Longrightarrow>
   \<exists>res0. fst (save_step e d opts s) = Inr res0 \<and>
     fst (sheet_step e d opts res0 (snd (save_step e d opts s))) = Inr res"
  by (cases "save_step e d opts s")
    (auto simp: handleSurveySubmission_def split: sum.splits)

lemma saveToMongoDB_unique_env_ok:
  "fst (saveToMongoDB env_ok payload_ann True None server_init) = Inr doc_ann"
proof -
  have k: "uniqueness_key payload_ann = JStr ''a@x.com''"
    by (simp add: uniqueness_key_def get_prop_def js_or_def payload_ann_def)
  have again: "dbConnect env_ok None (snd (dbConnect env_ok None server_init)) =
      (Inr 1, snd (dbConnect env_ok None server_init))"
    using dbConnect_again [of env_ok None server_init 1] by (simp add: dbConnect_env_ok)
  have docs: "documents (snd (dbConnect env_ok None server_init)) = []"
    by (simp add: dbConnect_keeps server_init_def)
  have e: "countDocuments_rejects env_ok = None" "save_rejects env_ok = None"
    "Date_now env_ok = 1000"
    by (simp_all add: env_ok_def)
  have "fst (dbConnect env_ok None server_init) = Inr 1"
    by (simp add: dbConnect_env_ok)
  then show ?thesis
    using again docs
    by (cases "dbConnect env_ok None server_init")
      (simp add: saveToMongoDB_def duplicate_guard_def checkDuplicateEmail_def
          countDocuments_def model_save_def k e js_or_def doc_ann_def Let_def)
qed

lemma handleSurveySubmission_both_env_ok:
  "fst (handleSurveySubmission env_ok payload_ann options_both_unique server_init) =
     Inr \<lparr>results_mongo = Some doc_ann, results_sheets = Some 1\<rparr>"
proof -
  have o: "mongo options_both_unique = Some True" "checkDuplicate options_both_unique = Some True"
    "mongoUri options_both_unique = None" "googleSheet options_both_unique = Some sheet_a1"
    by (simp_all add: options_both_unique_def)
  have a: "append_rejects env_ok = None"
    by (simp add: env_ok_def)
  show ?thesis
    using saveToMongoDB_unique_env_ok
    by (cases "saveToMongoDB env_ok payload_ann True None server_init")
      (simp add: handleSurveySubmission_def save_step_def sheet_step_def
          appendToGoogleSheet_def o a Let_def)
qed

text \<open>
  C3, as amended. When both \<^verbatim>\<open>options.mongo\<close> and \<^verbatim>\<open>options.checkDuplicate\<close> are set:
  if neither \<^verbatim>\<open>data.email\<close> nor \<^verbatim>\<open>data.Email\<close> is truthy, the submission fails and writes
  no sink, and the error is the missing-key error once the connection is up; if the
  key is truthy and a record with that email (the key as the store keeps it, a string)
  is stored, the submission fails and writes no sink, and the error is the duplicate
  error carrying the key once the connection is up and the count query is answered.
\<close>

theorem duplicate_check_aborts:
  assumes m: "mongo opts = Some True" and cd: "checkDuplicate opts = Some True"
  shows
   "(\<not> truthy (uniqueness_key d) \<longrightarrow>
       isl (fst (handleSurveySubmission e d opts s)) \<and>
       sinks_unchanged s (snd (handleSurveySubmission e d opts s)) \<and>
       (fst (dbConnect e (mongoUri opts) s) = Inr c \<longrightarrow>
          fst (handleSurveySubmission e d opts s) = Inl EmailRequired)) \<and>
    (truthy (uniqueness_key d) \<and>
     0 < length (filter (\<lambda>r. email r = js_String e (uniqueness_key d)) (documents s)) \<longrightarrow>
       isl (fst (handleSurveySubmission e d opts s)) \<and>
       sinks_unchanged s (snd (handleSurveySubmission e d opts s)) \<and>
       (fst (dbConnect e (mongoUri opts) s) = Inr c \<and> countDocuments_rejects e = None \<longrightarrow>
          fst (handleSurveySubmission e d opts s) = Inl (SubmissionExists (uniqueness_key d))))"
proof (intro conjI impI)
  assume k: "\<not> truthy (uniqueness_key d)"
  have f: "isl (fst (saveToMongoDB e d True (mongoUri opts) s))"
    using saveToMongoDB_missing_key [OF k, of e "mongoUri opts" s]
    by (simp split: prod.splits sum.splits)
  then obtain err where err: "fst (saveToMongoDB e d True (mongoUri opts) s) = Inl err"
    by (cases "fst (saveToMongoDB e d True (mongoUri opts) s)") simp_all
  have h: "handleSurveySubmission e d opts s = (Inl err, snd (saveToMongoDB e d True (mongoUri opts) s))"
    using handleSurveySubmission_save_fails [OF m, of e d s err] err cd by simp
  show "isl (fst (handleSurveySubmission e d opts s))" by (simp add: h)
  show "sinks_unchanged s (snd (handleSurveySubmission e d opts s))"
    using saveToMongoDB_fails_sinks_unchanged [OF err] by (simp add: h)
  assume "fst (dbConnect e (mongoUri opts) s) = Inr c"
  then have "err = EmailRequired"
    using saveToMongoDB_missing_key [OF k, of e "mongoUri opts" s] err
    by (simp split: prod.splits sum.splits)
  then show "fst (handleSurveySubmission e d opts s) = Inl EmailRequired" by (simp add: h)
next
  assume k: "truthy (uniqueness_key d) \<and>
     0 < length (filter (\<lambda>r. email r = js_String e (uniqueness_key d)) (documents s))"
  note eq = saveToMongoDB_duplicate [OF conjunct1 [OF k] conjunct2 [OF k], where uri = "mongoUri opts"]
  have f: "isl (fst (saveToMongoDB e d True (mongoUri opts) s))"
    using eq by (simp split: prod.splits sum.splits option.splits)
  then obtain err where err: "fst (saveToMongoDB e d True (mongoUri opts) s) = Inl err"
    by (cases "fst (saveToMongoDB e d True (mongoUri opts) s)") simp_all
  have h: "handleSurveySubmission e d opts s = (Inl err, snd (saveToMongoDB e d True (mongoUri opts) s))"
    using handleSurveySubmission_save_fails [OF m, of e d s err] err cd by simp
  show "isl (fst (handleSurveySubmission e d opts s))" by (simp add: h)
  show "sinks_unchanged s (snd (handleSurveySubmission e d opts s))"
    using saveToMongoDB_fails_sinks_unchanged [OF err] by (simp add: h)
  assume "fst (dbConnect e (mongoUri opts) s) = Inr c \<and> countDocuments_rejects e = None"
  then have "err = SubmissionExists (uniqueness_key d)"
    using eq err by (simp split: prod.splits sum.splits)
  then show "fst (handleSurveySubmission e d opts s) = Inl (SubmissionExists (uniqueness_key d))"
    by (simp add: h)
qed


theorem duplicate_check_aborts_witness:
  "fst (handleSurveySubmission env_ok payload_no_email options_both_unique server_with_ann) =
     Inl EmailRequired \<and>
   sinks_unchanged server_with_ann
     (snd (handleSurveySubmission env_ok payload_no_email options_both_unique server_with_ann)) \<and>
   fst (handleSurveySubmission env_ok payload_ann options_both_unique server_with_ann) =
     Inl (SubmissionExists (JStr ''a@x.com'')) \<and>
   sinks_unchanged server_with_ann
     (snd (handleSurveySubmission env_ok payload_ann options_both_unique server_with_ann))"
proof -
  have o: "mongo options_both_unique = Some True" "checkDuplicate options_both_unique = Some True"
    "mongoUri options_both_unique = None"
    by (simp_all add: options_both_unique_def)
  have k1: "\<not> truthy (uniqueness_key payload_no_email)"
    by (simp add: uniqueness_key_def get_prop_def js_or_def payload_no_email_def)
  have k2: "uniqueness_key payload_ann = JStr ''a@x.com''"
    by (simp add: uniqueness_key_def get_prop_def js_or_def payload_ann_def)
  have d: "documents server_with_ann =
      [\<lparr>surveyId = None, email = ''a@x.com'', data = payload_ann, createdAt = 999\<rparr>]"
    by (simp add: server_with_ann_def)
  have c: "fst (dbConnect env_ok None server_with_ann) = Inr 1"
    by (simp add: dbConnect_server_with_ann)
  have q: "countDocuments_rejects env_ok = None"
    by (simp add: env_ok_def)
  show ?thesis
    using duplicate_check_aborts [OF o(1,2), of payload_no_email env_ok server_with_ann 1]
      duplicate_check_aborts [OF o(1,2), of payload_ann env_ok server_with_ann 1]
    by (simp add: o(3) k1 k2 d c q)
qed

text \<open>
  C3 as stated fails: with \<^verbatim>\<open>checkDuplicate\<close> set and \<^verbatim>\<open>mongo\<close> unset the guard, which
  lives in \<open>saveToMongoDB\<close>, is never reached; a payload without a key is appended to
  the spreadsheet and the call succeeds.
\<close>

theorem duplicate_check_needs_mongo_counterexample:
  "checkDuplicate options_unique_no_mongo = Some True \<and>
   \<not> truthy (uniqueness_key payload_no_email) \<and>
   fst (handleSurveySubmission env_ok payload_no_email options_unique_no_mongo server_with_ann) =
     Inr \<lparr>results_mongo = None, results_sheets = Some 1\<rparr> \<and>
   sheet_rows
     (snd (handleSurveySubmission env_ok payload_no_email options_unique_no_mongo server_with_ann))
     (''sheet'', ''A1'') = [[JStr ''Ann'']]"
proof -
  have o: "mongo options_unique_no_mongo \<noteq> Some True"
    "googleSheet options_unique_no_mongo = Some sheet_a1"
    "checkDuplicate options_unique_no_mongo = Some True"
    by (simp_all add: options_unique_no_mongo_def)
  have k1: "\<not> truthy (uniqueness_key payload_no_email)"
    by (simp add: uniqueness_key_def get_prop_def js_or_def payload_no_email_def)
  have a: "append_rejects env_ok = None" "sheet_rows server_with_ann = (\<lambda>k. [])"
    by (simp_all add: env_ok_def server_with_ann_def server_init_def)
  show ?thesis
    by (simp add: handleSurveySubmission_no_mongo [OF o(1,2)] o(3) k1 a)
      (simp add: sheet_a1_def payload_no_email_def)
qed


text \<open>
  C4. In the object \<open>handleSurveySubmission\<close> returns, the key \<^verbatim>\<open>mongo\<close> is present only
  if \<^verbatim>\<open>options.mongo\<close> was set and \<open>saveToMongoDB\<close> returned the record stored under it,
  and the key \<^verbatim>\<open>sheets\<close> only if \<^verbatim>\<open>options.googleSheet\<close> was set and the append returned
  the result stored under it. When \<^verbatim>\<open>options.mongo\<close> is set and \<open>saveToMongoDB\<close> throws
  (from the connection, the duplicate check or the save), the call throws the same
  error and the spreadsheet is neither called nor changed.
\<close>

theorem handleSurveySubmission_keys:
  "(fst (handleSurveySubmission e d opts s) = Inr res \<longrightarrow>
      (results_mongo res = Some doc \<longrightarrow>
         mongo opts = Some True \<and>
         fst (saveToMongoDB e d (checkDuplicate opts = Some True) (mongoUri opts) s) = Inr doc) \<and>
      (results_sheets res = Some n \<longrightarrow>
         (\<exists>g. googleSheet opts = Some g \<and>
            fst (appendToGoogleSheet e (spreadsheetId g) (sheet_range g) (apiKey g)
                   [Object_values d] (accessToken g) (snd (save_step e d opts s))) = Inr n))) \<and>
   (mongo opts = Some True \<and>
    fst (saveToMongoDB e d (checkDuplicate opts = Some True) (mongoUri opts) s) = Inl err \<longrightarrow>
      fst (handleSurveySubmission e d opts s) = Inl err \<and>
      sheet_requests (snd (handleSurveySubmission e d opts s)) = sheet_requests s \<and>
      sheet_rows (snd (handleSurveySubmission e d opts s)) = sheet_rows s)"
proof (intro conjI impI)
  assume ok: "fst (handleSurveySubmission e d opts s) = Inr res"
  then obtain res0 where a: "fst (save_step e d opts s) = Inr res0"
    and b: "fst (sheet_step e d opts res0 (snd (save_step e d opts s))) = Inr res"
    using handleSurveySubmission_steps by blast
  note ka = save_step_mongo_key [OF a]
  note kb = sheet_step_keys [OF b]
  {
    assume "results_mongo res = Some doc"
    with ka kb show "mongo opts = Some True"
      and "fst (saveToMongoDB e d (checkDuplicate opts = Some True) (mongoUri opts) s) = Inr doc"
      by (simp_all split: option.splits)
  }
  {
    assume "results_sheets res = Some n"
    with ka kb show "\<exists>g. googleSheet opts = Some g \<and>
            fst (appendToGoogleSheet e (spreadsheetId g) (sheet_range g) (apiKey g)
                   [Object_values d] (accessToken g) (snd (save_step e d opts s))) = Inr n"
      by (cases "googleSheet opts") auto
  }
next
  assume f: "mongo opts = Some True \<and>
    fst (saveToMongoDB e d (checkDuplicate opts = Some True) (mongoUri opts) s) = Inl err"
  note h = handleSurveySubmission_save_fails [OF conjunct1 [OF f] conjunct2 [OF f]]
  show "fst (handleSurveySubmission e d opts s) = Inl err"
    by (simp add: h)
  show "sheet_requests (snd (handleSurveySubmission e d opts s)) = sheet_requests s"
    by (simp add: h saveToMongoDB_keeps_sheet)
  show "sheet_rows (snd (handleSurveySubmission e d opts s)) = sheet_rows s"
    by (simp add: h saveToMongoDB_keeps_sheet)
qed


theorem handleSurveySubmission_keys_witness:
  "fst (handleSurveySubmission env_ok payload_ann options_both_unique server_init) =
     Inr \<lparr>results_mongo = Some doc_ann, results_sheets = Some 1\<rparr> \<and>
   mongo options_both_unique = Some True \<and>
   fst (saveToMongoDB env_ok payload_ann True None server_init) = Inr doc_ann \<and>
   googleSheet options_both_unique = Some sheet_a1 \<and>
   fst (saveToMongoDB env_ok payload_ann True None server_with_ann) =
     Inl (SubmissionExists (JStr ''a@x.com'')) \<and>
   fst (handleSurveySubmission env_ok payload_ann options_both_unique server_with_ann) =
     Inl (SubmissionExists (JStr ''a@x.com'')) \<and>
   sheet_requests
     (snd (handleSurveySubmission env_ok payload_ann options_both_unique server_with_ann)) = [] \<and>
   sheet_rows
     (snd (handleSurveySubmission env_ok payload_ann options_both_unique server_with_ann))
     (''sheet'', ''A1'') = []"
proof -
  have o: "mongo options_both_unique = Some True" "checkDuplicate options_both_unique = Some True"
    "mongoUri options_both_unique = None" "googleSheet options_both_unique = Some sheet_a1"
    by (simp_all add: options_both_unique_def)
  have k: "uniqueness_key payload_ann = JStr ''a@x.com''"
    by (simp add: uniqueness_key_def get_prop_def js_or_def payload_ann_def)
  have d: "documents server_with_ann =
      [\<lparr>surveyId = None, email = ''a@x.com'', data = payload_ann, createdAt = 999\<rparr>]"
    "sheet_requests server_with_ann = []" "sheet_rows server_with_ann = (\<lambda>k. [])"
    by (simp_all add: server_with_ann_def server_init_def)
  have q: "countDocuments_rejects env_ok = None"
    by (simp add: env_ok_def)
  have dup: "fst (saveToMongoDB env_ok payload_ann True None server_with_ann) =
     Inl (SubmissionExists (JStr ''a@x.com''))"
    using saveToMongoDB_duplicate [where d = payload_ann and s = server_with_ann
        and e = env_ok and uri = None]
    by (simp add: k d q dbConnect_server_with_ann)
  show ?thesis
    using handleSurveySubmission_keys [where e = env_ok and d = payload_ann
        and opts = options_both_unique and s = server_init
        and res = "\<lparr>results_mongo = Some doc_ann, results_sheets = Some 1\<rparr>"
        and doc = doc_ann and n = 1]
      handleSurveySubmission_keys [where e = env_ok and d = payload_ann
        and opts = options_both_unique and s = server_with_ann
        and err = "SubmissionExists (JStr ''a@x.com'')"]
    by (simp add: handleSurveySubmission_both_env_ok saveToMongoDB_unique_env_ok o dup d)
qed


text \<open>
  C5. With \<^verbatim>\<open>options.googleSheet\<close> set and \<^verbatim>\<open>options.mongo\<close> unset, \<open>handleSurveySubmission\<close>
  sends exactly one append request, whose values are the single row of the payload's
  values in iteration order, and touches neither the collection nor the connection
  cache; when the spreadsheet accepts the request the call returns and exactly that
  row is appended to the configured range.
\<close>

theorem sheet_only_appends_one_row:
  assumes m: "mongo opts \<noteq> Some True" and g: "googleSheet opts = Some g"
  shows
   "sheet_requests (snd (handleSurveySubmission e d opts s)) =
      sheet_requests s @
        [\<lparr>req_spreadsheetId = spreadsheetId g, req_range = sheet_range g, req_apiKey = apiKey g,
          req_values = [map snd d], req_accessToken = accessToken g\<rparr>] \<and>
    documents (snd (handleSurveySubmission e d opts s)) = documents s \<and>
    cached_conn (snd (handleSurveySubmission e d opts s)) = cached_conn s \<and>
    cached_promise (snd (handleSurveySubmission e d opts s)) = cached_promise s \<and>
    connect_calls (snd (handleSurveySubmission e d opts s)) = connect_calls s \<and>
    (append_rejects e = None \<longrightarrow>
       fst (handleSurveySubmission e d opts s) =
         Inr \<lparr>results_mongo = None, results_sheets = Some 1\<rparr> \<and>
       sheet_rows (snd (handleSurveySubmission e d opts s)) =
         (sheet_rows s)((spreadsheetId g, sheet_range g) :=
            sheet_rows s (spreadsheetId g, sheet_range g) @ [map snd d]))"
  by (simp add: handleSurveySubmission_no_mongo [OF m g])

theorem sheet_only_appends_one_row_witness:
  "sheet_requests (snd (handleSurveySubmission env_ok payload_ann options_sheet_only server_init)) =
     [\<lparr>req_spreadsheetId = ''sheet'', req_range = ''A1'', req_apiKey = ''key'',
       req_values = [[JStr ''Ann'', JStr ''a@x.com'']], req_accessToken = None\<rparr>] \<and>
   documents (snd (handleSurveySubmission env_ok payload_ann options_sheet_only server_init)) = [] \<and>
   connect_calls (snd (handleSurveySubmission env_ok payload_ann options_sheet_only server_init)) = [] \<and>
   fst (handleSurveySubmission env_ok payload_ann options_sheet_only server_init) =
     Inr \<lparr>results_mongo = None, results_sheets = Some 1\<rparr> \<and>
   sheet_rows (snd (handleSurveySubmission env_ok payload_ann options_sheet_only server_init))
     (''sheet'', ''A1'') = [[JStr ''Ann'', JStr ''a@x.com'']]"
proof -
  have o: "mongo options_sheet_only \<noteq> Some True" "googleSheet options_sheet_only = Some sheet_a1"
    by (simp_all add: options_sheet_only_def)
  have a: "append_rejects env_ok = None"
    by (simp add: env_ok_def)
  have i: "sheet_requests server_init = []" "documents server_init = []"
    "connect_calls server_init = []" "sheet_rows server_init = (\<lambda>k. [])"
    by (simp_all add: server_init_def)
  have v: "map snd payload_ann = [JStr ''Ann'', JStr ''a@x.com'']"
    by (simp add: payload_ann_def)
  have g: "spreadsheetId sheet_a1 = ''sheet''" "sheet_range sheet_a1 = ''A1''"
    "apiKey sheet_a1 = ''key''" "accessToken sheet_a1 = None"
    by (simp_all add: sheet_a1_def)
  show ?thesis
    using sheet_only_appends_one_row [OF o, of env_ok payload_ann server_init]
    by (simp add: a i v g)
qed


section \<open>The cached bucket handle\<close>

lemma getBucket_hit:
  "cached_name m = Some (bucketName config) \<Longrightarrow>
   \<exists>b. cachedBucket m = Some b \<and> getBucket nm config m = (Inr b, m)"
  by (auto simp: getBucket_def cached_name_def split: option.splits)

lemma getBucket_miss:
  "cached_name m \<noteq> Some (bucketName config) \<Longrightarrow>
   getBucket nm config m = construct_bucket nm config m"
  by (auto simp: getBucket_def cached_name_def split: option.splits)

lemma getBucket_count:
  "storages_constructed (snd (getBucket nm config m)) =
     storages_constructed m + (if cached_name m = Some (bucketName config) then 0 else 1)"
proof (cases "cached_name m = Some (bucketName config)")
  case True
  then show ?thesis using getBucket_hit [OF True, of nm] by auto
next
  case False
  then show ?thesis by (simp add: getBucket_miss construct_bucket_def Let_def)
qed

lemma getBucket_cached_name:
  assumes "cachedStorage m = None \<Longrightarrow> cachedBucket m = None"
    and "plain_name nm config"
  shows "cached_name (snd (getBucket nm config m)) =
           (if bucketName config = [] then cached_name m else Some (bucketName config))"
proof (cases "cached_name m = Some (bucketName config)")
  case True
  then show ?thesis using getBucket_hit [OF True, of nm] by auto
next
  case False
  then show ?thesis
    using assms
    by (cases "cachedStorage m")
      (auto simp: getBucket_miss construct_bucket_def Let_def cached_name_def plain_name_def)
qed

lemma getBucket_cachedStorage:
  "cachedStorage (snd (getBucket nm config m)) = None \<Longrightarrow>
   cachedBucket (snd (getBucket nm config m)) = None"
  by (auto simp: getBucket_def construct_bucket_def Let_def split: option.splits if_splits)

lemma getBuckets_Cons_snd:
  "snd (getBuckets nm (config # rest) m) = snd (getBuckets nm rest (snd (getBucket nm config m)))"
  by (simp split: prod.splits)

lemma getBuckets_count:
  assumes "cachedStorage m = None \<Longrightarrow> cachedBucket m = None"
    and "cached_name m \<noteq> Some []"
    and "list_all (plain_name nm) configs"
  shows "storages_constructed (snd (getBuckets nm configs m)) =
     storages_constructed m + name_changes (cached_name m) (map bucketName configs)"
  using assms
proof (induction configs arbitrary: m)
  case Nil
  show ?case by simp
next
  case (Cons config rest)
  let ?m1 = "snd (getBucket nm config m)"
  have p: "plain_name nm config" and r: "list_all (plain_name nm) rest"
    using Cons.prems(3) by simp_all
  have cn: "cached_name ?m1 =
      (if bucketName config = [] then cached_name m else Some (bucketName config))"
    using getBucket_cached_name [OF Cons.prems(1) p] by simp
  have ne: "cached_name ?m1 \<noteq> Some []"
    using cn Cons.prems(2) by (simp split: if_splits)
  have "storages_constructed (snd (getBuckets nm (config # rest) m)) =
      storages_constructed ?m1 + name_changes (cached_name ?m1) (map bucketName rest)"
    unfolding getBuckets_Cons_snd
    by (rule Cons.IH [OF getBucket_cachedStorage ne r])
  then show ?case
    using Cons.prems(2) by (simp add: getBucket_count cn)
qed

lemma dbConnect_without_string:
  "\<not> str_truthy (connectionString e uri) \<Longrightarrow> dbConnect e uri s = (Inl NoConnectionString, s)"
  by (auto simp: dbConnect_def str_truthy_def split: option.splits)

lemma getBucket_config_a:
  "getBucket (\<lambda>n. n) config_a bucket_module_init = (Inr bucket_a, module_a)"
  by (simp add: getBucket_def construct_bucket_def bucket_module_init_def Let_def
      bucket_a_def module_a_def config_a_def)

lemma getBucket_config_b: "getBucket (\<lambda>n. n) config_b module_a = (Inr bucket_a, module_a)"
  by (simp add: getBucket_def module_a_def bucket_a_def config_b_def)

lemma getBuckets_a_b:
  "getBuckets (\<lambda>n. n) [config_a, config_b] bucket_module_init =
     ([Inr bucket_a, Inr bucket_a], module_a)"
  by (simp add: getBucket_config_a getBucket_config_b)

text \<open>
  C8, as amended. \<open>getBucket\<close> constructs a new \<^verbatim>\<open>Storage\<close> client exactly when no handle
  is cached or the cached handle's name differs from the requested bucket name, and
  returns the cached handle, changing nothing, otherwise; credentials are not
  compared. When it constructs a client, it returns a new handle of that client if
  the requested name is not empty, and throws, keeping the old handle cached, if it is
  empty. Over any sequence of calls from the module's initial state, with names that
  are empty or that the library gives to the handle as they are, the number of
  clients constructed is the number of empty names plus the number of other names
  that differ from the last name before them that was not empty. \<open>dbConnect\<close> returns
  its cached connection, changing nothing, whenever one is cached and a connection
  string is available, as after any successful call; without a connection string it
  fails, also when a connection is cached.
\<close>

theorem getBucket_rebuilds_on_name_change:
  "storages_constructed (snd (getBucket nm config m)) =
     storages_constructed m + (if cached_name m = Some (bucketName config) then 0 else 1) \<and>
   (cachedStorage m = Some st \<and> cachedBucket m = Some b \<and> name b = bucketName config \<longrightarrow>
      getBucket nm config m = (Inr b, m)) \<and>
   (cached_name m \<noteq> Some (bucketName config) \<and> bucketName config \<noteq> [] \<longrightarrow>
      fst (getBucket nm config m) =
        Inr \<lparr>name = nm (bucketName config),
             bucket_storage = \<lparr>storage_credentials = credentials config\<rparr>\<rparr>) \<and>
   (cached_name m \<noteq> Some (bucketName config) \<and> bucketName config = [] \<longrightarrow>
      fst (getBucket nm config m) = Inl BucketNameNeeded \<and>
      cachedBucket (snd (getBucket nm config m)) = cachedBucket m) \<and>
   (list_all (plain_name nm) configs \<longrightarrow>
      storages_constructed (snd (getBuckets nm configs bucket_module_init)) =
        name_changes None (map bucketName configs)) \<and>
   (str_truthy (connectionString e uri) \<and> cached_conn s = Some c \<longrightarrow>
      dbConnect e uri s = (Inr c, s)) \<and>
   (fst (dbConnect e uri s) = Inr c \<longrightarrow>
      dbConnect e uri (snd (dbConnect e uri s)) = (Inr c, snd (dbConnect e uri s))) \<and>
   (\<not> str_truthy (connectionString e uri) \<longrightarrow>
      dbConnect e uri s = (Inl NoConnectionString, s))"
proof (intro conjI impI)
  show "storages_constructed (snd (getBucket nm config m)) =
     storages_constructed m + (if cached_name m = Some (bucketName config) then 0 else 1)"
    by (rule getBucket_count)
next
  assume "cachedStorage m = Some st \<and> cachedBucket m = Some b \<and> name b = bucketName config"
  then show "getBucket nm config m = (Inr b, m)"
    by (simp add: getBucket_def)
next
  assume "cached_name m \<noteq> Some (bucketName config) \<and> bucketName config \<noteq> []"
  then show "fst (getBucket nm config m) =
        Inr \<lparr>name = nm (bucketName config),
             bucket_storage = \<lparr>storage_credentials = credentials config\<rparr>\<rparr>"
    by (simp add: getBucket_miss construct_bucket_def Let_def)
next
  assume a: "cached_name m \<noteq> Some (bucketName config) \<and> bucketName config = []"
  have miss: "getBucket nm config m = construct_bucket nm config m"
    using a getBucket_miss by blast
  show "fst (getBucket nm config m) = Inl BucketNameNeeded"
    using a by (simp add: miss construct_bucket_def Let_def)
  show "cachedBucket (snd (getBucket nm config m)) = cachedBucket m"
    using a by (simp add: miss construct_bucket_def Let_def)
next
  assume "list_all (plain_name nm) configs"
  then show "storages_constructed (snd (getBuckets nm configs bucket_module_init)) =
     name_changes None (map bucketName configs)"
    using getBuckets_count [of bucket_module_init nm configs]
    by (simp add: bucket_module_init_def cached_name_def)
next
  assume "str_truthy (connectionString e uri) \<and> cached_conn s = Some c"
  then show "dbConnect e uri s = (Inr c, s)"
    by (simp add: dbConnect_cached)
next
  assume "fst (dbConnect e uri s) = Inr c"
  then show "dbConnect e uri (snd (dbConnect e uri s)) = (Inr c, snd (dbConnect e uri s))"
    by (rule dbConnect_again)
next
  assume "\<not> str_truthy (connectionString e uri)"
  then show "dbConnect e uri s = (Inl NoConnectionString, s)"
    by (rule dbConnect_without_string)
qed

theorem getBucket_rebuilds_on_name_change_witness:
  "getBucket (\<lambda>n. n) config_a bucket_module_init = (Inr bucket_a, module_a) \<and>
   getBucket (\<lambda>n. n) config_b module_a = (Inr bucket_a, module_a) \<and>
   storages_constructed (snd (getBucket (\<lambda>n. n) config_c module_a)) = 2 \<and>
   fst (getBucket (\<lambda>n. n) config_c module_a) =
     Inr \<lparr>name = ''archive'',
          bucket_storage = \<lparr>storage_credentials = credentials config_c\<rparr>\<rparr> \<and>
   fst (getBucket (\<lambda>n. n) config_empty module_a) = Inl BucketNameNeeded \<and>
   cachedBucket (snd (getBucket (\<lambda>n. n) config_empty module_a)) = Some bucket_a \<and>
   storages_constructed
     (snd (getBuckets (\<lambda>n. n) [config_a, config_b, config_c, config_c] bucket_module_init)) = 2 \<and>
   storages_constructed
     (snd (getBuckets (\<lambda>n. n) [config_a, config_empty, config_a] bucket_module_init)) = 2 \<and>
   dbConnect env_ok None (snd (dbConnect env_ok None server_init)) =
     (Inr 1, snd (dbConnect env_ok None server_init)) \<and>
   dbConnect env_unset None (snd (dbConnect env_ok None server_init)) =
     (Inl NoConnectionString, snd (dbConnect env_ok None server_init))"
proof -
  have m: "cachedStorage module_a = Some \<lparr>storage_credentials = credentials config_a\<rparr>"
    "cachedBucket module_a = Some bucket_a" "storages_constructed module_a = 1"
    by (simp_all add: module_a_def)
  have n: "name bucket_a = ''uploads''" "bucketName config_a = ''uploads''"
    "bucketName config_b = ''uploads''" "bucketName config_c = ''archive''"
    "bucketName config_empty = []"
    by (simp_all add: bucket_a_def config_a_def config_b_def config_c_def config_empty_def)
  have cn: "cached_name module_a = Some ''uploads''"
    by (simp add: cached_name_def m n)
  have pl: "plain_name (\<lambda>n. n) config_a" "plain_name (\<lambda>n. n) config_b"
    "plain_name (\<lambda>n. n) config_c" "plain_name (\<lambda>n. n) config_empty"
    by (simp_all add: plain_name_def)
  have c: "fst (dbConnect env_ok None server_init) = Inr 1"
    "cached_conn (snd (dbConnect env_ok None server_init)) = Some 1"
    by (simp_all add: dbConnect_env_ok)
  have cs: "str_truthy (connectionString env_ok None)"
    "\<not> str_truthy (connectionString env_unset None)"
    by (simp_all add: connectionString_def str_truthy_def env_ok_def env_unset_def)
  show ?thesis
    using getBucket_rebuilds_on_name_change [where nm = "\<lambda>n. n" and config = config_b
        and m = module_a and st = "\<lparr>storage_credentials = credentials config_a\<rparr>"
        and b = bucket_a and configs = "[config_a, config_b, config_c, config_c]"
        and e = env_ok and uri = None and s = server_init and c = 1]
      getBucket_rebuilds_on_name_change [where nm = "\<lambda>n. n" and config = config_c
        and m = module_a and configs = "[config_a, config_empty, config_a]"
        and e = env_ok and uri = None and s = "snd (dbConnect env_ok None server_init)" and c = 1]
      getBucket_rebuilds_on_name_change [where nm = "\<lambda>n. n" and config = config_empty
        and m = module_a and configs = "[]"
        and e = env_unset and uri = None and s = "snd (dbConnect env_ok None server_init)"]
    by (simp add: m n cn pl c cs getBucket_config_a del: getBuckets.simps)
qed

text \<open>
  C8 as stated fails: a call whose credentials differ from the cached client's, for
  the same bucket name, constructs nothing and returns the handle made with the first
  credentials.
\<close>

theorem getBucket_ignores_credentials_counterexample:
  "credentials config_a \<noteq> credentials config_b \<and>
   storages_constructed
     (snd (getBuckets (\<lambda>n. n) [config_a, config_b] bucket_module_init)) = 1 \<and>
   fst (getBuckets (\<lambda>n. n) [config_a, config_b] bucket_module_init) =
     [Inr bucket_a, Inr bucket_a] \<and>
   storage_credentials (bucket_storage bucket_a) = credentials config_a"
  unfolding getBuckets_a_b
  by (simp add: config_a_def config_b_def module_a_def bucket_a_def)

section \<open>The upload handler\<close>

lemma on_catch_string: "on_catch (opts\<lparr>callback := StringValue v\<rparr>) = [ConsoleError, UnhandledRejection]"
  by (simp add: on_catch_def call_callback_def)

lemma on_data_string:
  "on_data (opts\<lparr>callback := StringValue v\<rparr>) body = [ConsoleError, UnhandledRejection]"
  by (simp add: on_data_def call_callback_def on_catch_string)

lemma handleUploadFiles_trace:
  "snd (handleUploadFiles url opts outcome) =
     (case url of
        None \<Rightarrow> []
      | Some u \<Rightarrow>
          if u = [] then [] else [Posted u (files opts), ConsoleError, UnhandledRejection])"
  by (cases outcome)
    (simp_all add: handleUploadFiles_def str_truthy_def Let_def on_catch_string on_data_string
      split: option.splits)

text \<open>
  C2. The claim is that exactly one of the callbacks is invoked exactly once. The
  handler instead never invokes the engine's callback: line 69 overwrites the
  \<^verbatim>\<open>callback\<close> property with the string \<^verbatim>\<open>success\<close>, so the call of line 82 throws, the
  \<^verbatim>\<open>.catch\<close> handler logs and throws at line 86, and the chain ends in an unhandled
  rejection, whatever the request's outcome. For an upload of one file to
  \<^verbatim>\<open>/api/upload\<close> whose response parses, the whole trace is the POST, the log and the
  rejection.
\<close>

theorem handleUploadFiles_never_invokes_callback:
  "invocations (snd (handleUploadFiles url (opts\<lparr>callback := EngineCallback\<rparr>) outcome)) = [] \<and>
   snd (handleUploadFiles (Some ''/api/upload'') upload_event_a
          (Parsed [(''1'', ''https://cdn/a.png'')])) =
     [Posted ''/api/upload'' [''a.png''], ConsoleError, UnhandledRejection]"
  by (simp add: handleUploadFiles_trace invocations_def upload_event_a_def split: option.splits)


section \<open>Binding and cleanup\<close>

lemma mount_survey_fresh:
  "calls (unmount (mount survey_fresh props_f)) =
     [Add ''onUpdateQuestionCssClasses'' (HandleUpdateCss 0),
      Add ''onComplete'' (HandleComplete 0),
      Add ''onValueChanged'' (DynamicHandler 0 ''onValueChanged''),
      Remove ''onUpdateQuestionCssClasses'' (HandleUpdateCss 0),
      Remove ''onComplete'' (HandleComplete 0)]"
  by (simp add: unmount_def run_cleanup_def cleanup_def mount_def bind_effect_def update_refs_def
      bind_other_def event_add_def event_remove_def survey_event_def map_event_def str_truthy_def
      survey_fresh_def props_f_def Let_def)


lemma calls_fold_bind_other:
  "filter is_dynamic_remove (calls (fold (bind_other k) ns c)) = filter is_dynamic_remove (calls c)"
  by (induction ns arbitrary: c)
    (simp_all add: bind_other_def event_add_def split: option.splits)

lemma calls_bind_effect:
  "filter is_dynamic_remove (calls (bind_effect url c)) = filter is_dynamic_remove (calls c)"
  by (simp add: bind_effect_def Let_def calls_fold_bind_other event_add_def)

lemma calls_run_cleanup:
  "filter is_dynamic_remove (calls (run_cleanup c)) = filter is_dynamic_remove (calls c)"
  by (simp add: run_cleanup_def cleanup_def Let_def event_remove_def split: option.splits)

lemma calls_rerender:
  "filter is_dynamic_remove (calls (rerender p c)) = filter is_dynamic_remove (calls c)"
  by (simp add: rerender_def Let_def calls_bind_effect calls_run_cleanup update_refs_def)

lemma no_dynamic_remove_mount:
  "filter is_dynamic_remove (calls (mount sv p)) = []"
  by (simp add: mount_def calls_bind_effect update_refs_def)

lemma calls_rerenders:
  "filter is_dynamic_remove (calls (rerenders ps c)) = filter is_dynamic_remove (calls c)"
  by (induction ps arbitrary: c) (simp_all add: calls_rerender)

lemma removes_of_dynamic:
  "removes_of n (DynamicHandler k m) cs =
     length (filter (\<lambda>x. x = Remove n (DynamicHandler k m)) (filter is_dynamic_remove cs))"
  by (induction cs) (auto simp: removes_of_def)

text \<open>
  C1. The claim is that the cleanup removes every subscription the effect added.
  Over the whole life of a component (mount, any renders, unmount) no \<^verbatim>\<open>remove\<close> call
  is ever made for a dynamic handler, on any channel. For a fresh survey with an
  \<^verbatim>\<open>onValueChanged\<close> event and a caller passing an \<^verbatim>\<open>onValueChanged\<close> handler, mounting
  and unmounting makes three \<^verbatim>\<open>add\<close> calls and two \<^verbatim>\<open>remove\<close> calls, and the dynamic
  handler stays subscribed.
\<close>

theorem dynamic_handlers_never_removed:
  "removes_of n (DynamicHandler k m) (calls (unmount (rerenders ps (mount sv p)))) = 0 \<and>
   adds_of ''onValueChanged'' (DynamicHandler 0 ''onValueChanged'')
     (calls (unmount (mount survey_fresh props_f))) = 1 \<and>
   calls (unmount (mount survey_fresh props_f)) =
     [Add ''onUpdateQuestionCssClasses'' (HandleUpdateCss 0),
      Add ''onComplete'' (HandleComplete 0),
      Add ''onValueChanged'' (DynamicHandler 0 ''onValueChanged''),
      Remove ''onUpdateQuestionCssClasses'' (HandleUpdateCss 0),
      Remove ''onComplete'' (HandleComplete 0)] \<and>
   survey_event (survey (unmount (mount survey_fresh props_f))) ''onValueChanged'' =
     Some [DynamicHandler 0 ''onValueChanged'']"
proof (intro conjI)
  show "removes_of n (DynamicHandler k m) (calls (unmount (rerenders ps (mount sv p)))) = 0"
    by (simp add: removes_of_dynamic unmount_def calls_run_cleanup calls_rerenders
        no_dynamic_remove_mount)
  show "adds_of ''onValueChanged'' (DynamicHandler 0 ''onValueChanged'')
     (calls (unmount (mount survey_fresh props_f))) = 1"
    by (simp add: mount_survey_fresh adds_of_def)
  show "calls (unmount (mount survey_fresh props_f)) =
     [Add ''onUpdateQuestionCssClasses'' (HandleUpdateCss 0),
      Add ''onComplete'' (HandleComplete 0),
      Add ''onValueChanged'' (DynamicHandler 0 ''onValueChanged''),
      Remove ''onUpdateQuestionCssClasses'' (HandleUpdateCss 0),
      Remove ''onComplete'' (HandleComplete 0)]"
    by (rule mount_survey_fresh)
  show "survey_event (survey (unmount (mount survey_fresh props_f))) ''onValueChanged'' =
     Some [DynamicHandler 0 ''onValueChanged'']"
    by (simp add: unmount_def run_cleanup_def cleanup_def mount_def bind_effect_def update_refs_def
      bind_other_def event_add_def event_remove_def survey_event_def map_event_def str_truthy_def
      survey_fresh_def props_f_def Let_def)
qed


section \<open>The latest handler\<close>

lemma survey_event_map_event:
  "survey_event (map_event m f sv) n =
     (if m = n then map_option f (survey_event sv n) else survey_event sv n)"
  by (simp add: survey_event_def map_event_def)

lemma survey_event_bind_other:
  "survey_event (survey (bind_other k m c)) n =
     (if m = n then map_option (\<lambda>hs. hs @ [DynamicHandler k n]) (survey_event (survey c) n)
      else survey_event (survey c) n)"
  by (cases "survey_event (survey c) m")
    (auto simp: bind_other_def event_add_def survey_event_map_event)

lemma survey_event_fold_bind_other:
  "distinct ns \<Longrightarrow>
   survey_event (survey (fold (bind_other k) ns c)) n =
     map_option (\<lambda>hs. hs @ (if n \<in> set ns then [DynamicHandler k n] else []))
       (survey_event (survey c) n)"
proof (induction ns arbitrary: c)
  case Nil
  show ?case by (simp add: option.map_ident)
next
  case (Cons m ns)
  then have d: "distinct ns" and m: "m \<notin> set ns" by simp_all
  show ?case
    using m by (auto simp: Cons.IH [OF d] survey_event_bind_other option.map_comp o_def)
qed

lemma otherCallbacksRef_fold_bind_other:
  "otherCallbacksRef (fold (bind_other k) ns c) = otherCallbacksRef c"
  "onCompleteRef (fold (bind_other k) ns c) = onCompleteRef c"
  by (induction ns arbitrary: c)
    (simp_all add: bind_other_def event_add_def split: option.splits)

lemma refs_bind_effect:
  "otherCallbacksRef (bind_effect url c) = otherCallbacksRef c"
  "onCompleteRef (bind_effect url c) = onCompleteRef c"
  by (simp_all add: bind_effect_def Let_def otherCallbacksRef_fold_bind_other event_add_def)

lemma refs_rerender:
  "otherCallbacksRef (rerender p c) = otherCallbacks p"
  "onCompleteRef (rerender p c) = onComplete_prop p"
  by (simp_all add: rerender_def Let_def refs_bind_effect update_refs_def)

lemma refs_mount:
  "otherCallbacksRef (mount sv p) = otherCallbacks p"
  by (simp add: mount_def refs_bind_effect update_refs_def)

lemma rerender_same_deps:
  "last_deps c = Some (deps_of p (renders c)) \<Longrightarrow>
   calls (rerender p c) = calls c \<and> survey (rerender p c) = survey c"
  by (simp add: rerender_def Let_def update_refs_def)

lemma mount_deps:
  "last_deps (mount sv p) = Some (deps_of p 0)" "renders (mount sv p) = 1"
proof -
  have a: "last_deps (fold (bind_other k) ns c) = last_deps c \<and>
           renders (fold (bind_other k) ns c) = renders c" for k ns c
    by (induction ns arbitrary: c)
      (simp_all add: bind_other_def event_add_def split: option.splits)
  show "last_deps (mount sv p) = Some (deps_of p 0)" "renders (mount sv p) = 1"
    by (simp_all add: mount_def bind_effect_def Let_def a event_add_def update_refs_def)
qed

lemma survey_event_mount:
  assumes "distinct (map fst (otherCallbacks p))" and "\<not> builtin_event n"
  shows "survey_event (survey (mount sv p)) n =
     map_option (\<lambda>hs. hs @ (if n \<in> fst ` set (otherCallbacks p) then [DynamicHandler 0 n] else []))
       (other_events sv n)"
proof -
  have 1: "survey_event (survey (event_add m h c)) n = survey_event (survey c) n"
    if "builtin_event m" for m h c
    using that assms(2) by (auto simp: event_add_def survey_event_map_event builtin_event_def)
  have 2: "survey_event sv n = other_events sv n"
    using assms(2) by (simp add: survey_event_def builtin_event_def)
  have 3: "otherCallbacksRef (event_add m h c) = otherCallbacksRef c" for m h c
    by (simp add: event_add_def)
  show ?thesis
    using assms(1)
    by (simp add: mount_def bind_effect_def Let_def survey_event_fold_bind_other 1 2 3
        builtin_event_def update_refs_def)
qed


lemma invoke_rerender:
  "invoke (rerender p c) (DynamicHandler k n) =
     (case map_of (otherCallbacks p) n of Some (Fn g) \<Rightarrow> [g] | Some NotFunc \<Rightarrow> [] | None \<Rightarrow> [])"
  by (simp add: refs_rerender)

text \<open>
  C6, as amended. After any render, a dynamic handler invokes the function the latest
  props hold under its name (and nothing when that is no function). A render whose
  \<^verbatim>\<open>customCss\<close> object and \<^verbatim>\<open>uploadApiUrl\<close> are those of the last run of the binding effect
  makes no \<^verbatim>\<open>add\<close> or \<^verbatim>\<open>remove\<close> call and leaves the subscriptions as they are. So for
  a handler bound at mount on an event of a fresh survey, a second render with the
  same \<^verbatim>\<open>customCss\<close> object and \<^verbatim>\<open>uploadApiUrl\<close> and a new function makes the next firing
  of the event invoke the new function, once, with no call made on the survey.
\<close>

theorem dynamic_handler_calls_latest:
  "(customCss p = Some i \<and> last_deps c = Some (Passed i, uploadApiUrl p) \<longrightarrow>
      calls (rerender p c) = calls c \<and> survey (rerender p c) = survey c) \<and>
   invoke (rerender p c) (DynamicHandler k n) =
     (case map_of (otherCallbacks p) n of Some (Fn g) \<Rightarrow> [g] | Some NotFunc \<Rightarrow> [] | None \<Rightarrow> []) \<and>
   (customCss p1 = Some i \<and> customCss p2 = Some i \<and> uploadApiUrl p2 = uploadApiUrl p1 \<and>
    distinct (map fst (otherCallbacks p1)) \<and> map_of (otherCallbacks p1) n = Some (Fn f) \<and>
    map_of (otherCallbacks p2) n = Some (Fn g) \<and> \<not> builtin_event n \<and>
    other_events sv n = Some [] \<longrightarrow>
      fire n (mount sv p1) = [f] \<and>
      calls (rerender p2 (mount sv p1)) = calls (mount sv p1) \<and>
      fire n (rerender p2 (mount sv p1)) = [g])"
proof (intro conjI impI)
  assume "customCss p = Some i \<and> last_deps c = Some (Passed i, uploadApiUrl p)"
  then have "last_deps c = Some (deps_of p (renders c))"
    by (simp add: deps_of_def)
  then show "calls (rerender p c) = calls c" and "survey (rerender p c) = survey c"
    by (simp_all add: rerender_same_deps)
next
  show "invoke (rerender p c) (DynamicHandler k n) =
     (case map_of (otherCallbacks p) n of Some (Fn g) \<Rightarrow> [g] | Some NotFunc \<Rightarrow> [] | None \<Rightarrow> [])"
    by (rule invoke_rerender)
next
  assume a: "customCss p1 = Some i \<and> customCss p2 = Some i \<and> uploadApiUrl p2 = uploadApiUrl p1 \<and>
    distinct (map fst (otherCallbacks p1)) \<and> map_of (otherCallbacks p1) n = Some (Fn f) \<and>
    map_of (otherCallbacks p2) n = Some (Fn g) \<and> \<not> builtin_event n \<and>
    other_events sv n = Some []"
  then have mem: "n \<in> fst ` set (otherCallbacks p1)"
    by (metis map_of_eq_None_iff option.distinct(1))
  have ev: "survey_event (survey (mount sv p1)) n = Some [DynamicHandler 0 n]"
    using a mem by (simp add: survey_event_mount)
  have same: "last_deps (mount sv p1) = Some (deps_of p2 (renders (mount sv p1)))"
    using a by (simp add: mount_deps deps_of_def)
  note keep = rerender_same_deps [OF same]
  show "fire n (mount sv p1) = [f]"
    using a by (simp add: fire_def ev refs_mount)
  show "calls (rerender p2 (mount sv p1)) = calls (mount sv p1)"
    using keep by simp
  show "fire n (rerender p2 (mount sv p1)) = [g]"
    using a keep by (simp add: fire_def ev refs_rerender)
qed


theorem dynamic_handler_calls_latest_witness:
  "fire ''onValueChanged'' (mount survey_fresh props_f) = [1] \<and>
   calls (rerender props_g (mount survey_fresh props_f)) = calls (mount survey_fresh props_f) \<and>
   survey (rerender props_g (mount survey_fresh props_f)) = survey (mount survey_fresh props_f) \<and>
   invoke (rerender props_g (mount survey_fresh props_f))
     (DynamicHandler 0 ''onValueChanged'') = [2] \<and>
   fire ''onValueChanged'' (rerender props_g (mount survey_fresh props_f)) = [2]"
proof -
  have p: "customCss props_f = Some 1" "customCss props_g = Some 1"
    "uploadApiUrl props_f = None" "uploadApiUrl props_g = None"
    "distinct (map fst (otherCallbacks props_f))"
    "map_of (otherCallbacks props_f) ''onValueChanged'' = Some (Fn 1)"
    "map_of (otherCallbacks props_g) ''onValueChanged'' = Some (Fn 2)"
    by (simp_all add: props_f_def props_g_def)
  have n: "\<not> builtin_event ''onValueChanged''"
    "other_events survey_fresh ''onValueChanged'' = Some []"
    by (simp_all add: builtin_event_def survey_fresh_def)
  have d: "last_deps (mount survey_fresh props_f) = Some (Passed 1, None)"
    by (simp add: mount_deps deps_of_def props_f_def)
  show ?thesis
    using dynamic_handler_calls_latest [where p = props_g and i = 1
        and c = "mount survey_fresh props_f" and k = 0 and n = "''onValueChanged''"
        and ?p1.0 = props_f and ?p2.0 = props_g and f = 1 and g = 2 and sv = survey_fresh]
    by (simp add: p n d)
qed

text \<open>
  C6 as stated fails: when the second render also passes another \<^verbatim>\<open>customCss\<close> object,
  the binding effect runs again and makes three more \<^verbatim>\<open>add\<close> calls, one of them for a
  second dynamic handler on the same channel.
\<close>

theorem rebinding_on_new_css_counterexample:
  "calls (rerender props_g_new_css (mount survey_fresh props_f)) =
     calls (mount survey_fresh props_f) @
     [Remove ''onUpdateQuestionCssClasses'' (HandleUpdateCss 0),
      Remove ''onComplete'' (HandleComplete 0),
      Add ''onUpdateQuestionCssClasses'' (HandleUpdateCss 1),
      Add ''onComplete'' (HandleComplete 1),
      Add ''onValueChanged'' (DynamicHandler 1 ''onValueChanged'')] \<and>
   fire ''onValueChanged'' (rerender props_g_new_css (mount survey_fresh props_f)) = [2, 2]"
  by (simp add: rerender_def fire_def run_cleanup_def cleanup_def mount_def bind_effect_def
      update_refs_def deps_of_def bind_other_def event_add_def event_remove_def survey_event_def
      map_event_def str_truthy_def survey_fresh_def props_f_def props_g_def props_g_new_css_def
      Let_def)


text \<open>
  The same happens when the caller passes no \<^verbatim>\<open>customCss\<close> at all: the default of line 17
  is a new object in each render, so the binding effect runs again after every render.
\<close>

lemma default_css_rebinds:
  "calls (rerender props_g_no_css (mount survey_fresh props_f_no_css)) =
     calls (mount survey_fresh props_f_no_css) @
     [Remove ''onUpdateQuestionCssClasses'' (HandleUpdateCss 0),
      Remove ''onComplete'' (HandleComplete 0),
      Add ''onUpdateQuestionCssClasses'' (HandleUpdateCss 1),
      Add ''onComplete'' (HandleComplete 1),
      Add ''onValueChanged'' (DynamicHandler 1 ''onValueChanged'')] \<and>
   fire ''onValueChanged'' (rerender props_g_no_css (mount survey_fresh props_f_no_css)) = [2, 2]"
  by (simp add: rerender_def fire_def run_cleanup_def cleanup_def mount_def bind_effect_def
      update_refs_def deps_of_def bind_other_def event_add_def event_remove_def survey_event_def
      map_event_def str_truthy_def survey_fresh_def props_f_def props_g_def props_f_no_css_def
      props_g_no_css_def Let_def)

end
